theory Spec2Isabelle
  imports Complex_Main
begin

section \<open>Python values\<close>

text \<open>
  The program of \<^verbatim>\<open>tour_assistant.py\<close> handles decoded JSON documents and the
  dictionaries it builds from them. A Python value is one of the seven shapes
  \<^verbatim>\<open>json.loads\<close> can return. A dictionary is an association list in insertion order,
  looked up with \<open>map_of\<close>; its keys are strings, as JSON object keys are. A float is the
  exact value of the finite double it stands for (so comparing it with an integer is
  exact, as in Python); NaN and the infinities are outside the model. A string is a list
  of code points below 256.
\<close>

datatype pyval =
    PNone
  | PBool bool
  | PInt int
  | PFloat real
  | PStr string
  | PList "pyval list"
  | PDict "(string \<times> pyval) list"

text \<open>
  The exceptions the interpreter raises on an ill-typed or missing access, the three
  exceptions of \<^verbatim>\<open>json.loads\<close>, and the failure of a chat completion request. Each
  constructor is one exception class: \<^verbatim>\<open>ValueError\<close> is a \<^verbatim>\<open>ValueError\<close> that is no
  \<^verbatim>\<open>JSONDecodeError\<close>.
\<close>

datatype exn =
    TypeError
  | KeyError
  | AttributeError
  | IndexError
  | JSONDecodeError
  | ValueError
  | RecursionError
  | APIError

text \<open>Sequencing: the first exception ends the computation.\<close>

definition then_do :: "exn + 'a \<Rightarrow> ('a \<Rightarrow> exn + 'b) \<Rightarrow> exn + 'b" where
  "then_do r f = (case r of Inl e \<Rightarrow> Inl e | Inr v \<Rightarrow> f v)"

text \<open>Truth value of an object, as \<^verbatim>\<open>not x\<close> tests it.\<close>

fun py_truthy :: "pyval \<Rightarrow> bool" where
  "py_truthy PNone = False"
| "py_truthy (PBool b) = b"
| "py_truthy (PInt i) = (i \<noteq> 0)"
| "py_truthy (PFloat r) = (r \<noteq> 0)"
| "py_truthy (PStr s) = (s \<noteq> [])"
| "py_truthy (PList xs) = (xs \<noteq> [])"
| "py_truthy (PDict d) = (d \<noteq> [])"

text \<open>\<^verbatim>\<open>x.get(key, default)\<close>: only a dictionary has the method.\<close>

fun py_get :: "pyval \<Rightarrow> string \<Rightarrow> pyval \<Rightarrow> exn + pyval" where
  "py_get (PDict d) k dflt = Inr (case map_of d k of None \<Rightarrow> dflt | Some v \<Rightarrow> v)"
| "py_get _ k dflt = Inl AttributeError"

text \<open>\<^verbatim>\<open>x["key"]\<close> with a string key.\<close>

fun py_item_str :: "pyval \<Rightarrow> string \<Rightarrow> exn + pyval" where
  "py_item_str (PDict d) k = (case map_of d k of None \<Rightarrow> Inl KeyError | Some v \<Rightarrow> Inr v)"
| "py_item_str _ k = Inl TypeError"

text \<open>
  \<^verbatim>\<open>x[i]\<close> with a non-negative integer index: a list or a string is indexed, a
  dictionary has no integer key, anything else is not subscriptable.
\<close>

fun py_item_int :: "pyval \<Rightarrow> nat \<Rightarrow> exn + pyval" where
  "py_item_int (PList xs) i = (if i < length xs then Inr (xs ! i) else Inl IndexError)"
| "py_item_int (PStr s) i = (if i < length s then Inr (PStr [s ! i]) else Inl IndexError)"
| "py_item_int (PDict d) i = Inl KeyError"
| "py_item_int _ i = Inl TypeError"

text \<open>\<^verbatim>\<open>len(x)\<close>.\<close>

fun py_len :: "pyval \<Rightarrow> exn + nat" where
  "py_len (PList xs) = Inr (length xs)"
| "py_len (PStr s) = Inr (length s)"
| "py_len (PDict d) = Inr (length (remdups (map fst d)))"
| "py_len _ = Inl TypeError"

text \<open>The numeric value of an object that compares with an integer (a bool is an int).\<close>

fun num_of :: "pyval \<Rightarrow> real option" where
  "num_of (PBool b) = Some (if b then 1 else 0)"
| "num_of (PInt i) = Some (real_of_int i)"
| "num_of (PFloat r) = Some r"
| "num_of _ = None"

text \<open>
  \<^verbatim>\<open>min(x, k)\<close> and \<^verbatim>\<open>max(k, x)\<close> for an integer \<open>k\<close>: the built-ins keep their
  first argument unless the second is strictly smaller (strictly greater), and the
  comparison raises when \<open>x\<close> is not a number.
\<close>

definition py_min_int :: "pyval \<Rightarrow> int \<Rightarrow> exn + pyval" where
  "py_min_int x k =
     (case num_of x of None \<Rightarrow> Inl TypeError
      | Some r \<Rightarrow> Inr (if real_of_int k < r then PInt k else x))"

definition py_max_int :: "int \<Rightarrow> pyval \<Rightarrow> exn + pyval" where
  "py_max_int k x =
     (case num_of x of None \<Rightarrow> Inl TypeError
      | Some r \<Rightarrow> Inr (if real_of_int k < r then x else PInt k))"

text \<open>\<^verbatim>\<open>range(x)\<close>, as the list of its indices.\<close>

fun py_range :: "pyval \<Rightarrow> exn + nat list" where
  "py_range (PInt k) = Inr [0 ..< nat k]"
| "py_range (PBool b) = Inr [0 ..< (if b then 1 else 0)]"
| "py_range _ = Inl TypeError"

section \<open>The weather window tool\<close>

text \<open>
  The two network providers. A request either raises a \<^verbatim>\<open>requests.RequestException\<close>
  (from \<^verbatim>\<open>requests.get\<close>, from \<^verbatim>\<open>raise_for_status\<close> or from \<^verbatim>\<open>.json()\<close>), kept with
  its text, or returns the decoded body. The geocoding provider is asked with the city,
  the forecast provider with the latitude and the longitude; the other request
  parameters are constants.
\<close>

datatype http_result = Raises string | Returns pyval

record providers =
  geocode :: "pyval \<Rightarrow> http_result"
  forecast :: "pyval \<Rightarrow> pyval \<Rightarrow> http_result"

datatype request = GeocodeRequest pyval | ForecastRequest pyval pyval

text \<open>Line 39: \<^verbatim>\<open>hours = max(1, min(hours, 24))\<close>.\<close>

definition clamp_hours :: "pyval \<Rightarrow> exn + pyval" where
  "clamp_hours hours = then_do (py_min_int hours 24) (\<lambda>m. py_max_int 1 m)"

text \<open>
  Lines 47 to 52: the coordinates of the first match, or \<open>None\<close> when the document
  has no match.
\<close>

definition first_match :: "pyval \<Rightarrow> exn + (pyval \<times> pyval) option" where
  "first_match geo_json =
     then_do (py_get geo_json ''results'' PNone) (\<lambda>results.
       if \<not> py_truthy results then Inr None
       else
         then_do (py_item_str geo_json ''results'') (\<lambda>rs.
         then_do (py_item_int rs 0) (\<lambda>result.
         then_do (py_item_str result ''latitude'') (\<lambda>latitude.
         then_do (py_item_str result ''longitude'') (\<lambda>longitude.
           Inr (Some (latitude, longitude)))))))"

text \<open>Lines 82 and 83: \<^verbatim>\<open>xs[idx] if idx < len(xs) else None\<close>.\<close>

definition item_or_none :: "pyval \<Rightarrow> nat \<Rightarrow> exn + pyval" where
  "item_or_none xs idx =
     then_do (py_len xs) (\<lambda>n. if idx < n then py_item_int xs idx else Inr PNone)"

text \<open>Lines 80 to 84: the sample of one index.\<close>

definition sample_at :: "pyval \<Rightarrow> pyval \<Rightarrow> pyval \<Rightarrow> nat \<Rightarrow> exn + pyval" where
  "sample_at timestamps temps precip idx =
     then_do (py_item_int timestamps idx) (\<lambda>t.
     then_do (item_or_none temps idx) (\<lambda>temperature.
     then_do (item_or_none precip idx) (\<lambda>probability.
       Inr (PDict [(''time'', t),
                   (''temperature_c'', temperature),
                   (''precipitation_probability'', probability)]))))"

text \<open>Lines 78 to 85: the loop over the indices, appending to \<open>samples\<close>.\<close>

fun collect_samples ::
  "pyval \<Rightarrow> pyval \<Rightarrow> pyval \<Rightarrow> nat list \<Rightarrow> pyval list \<Rightarrow> exn + pyval list" where
  "collect_samples timestamps temps precip [] samples = Inr samples"
| "collect_samples timestamps temps precip (idx # rest) samples =
     (case sample_at timestamps temps precip idx of
        Inl e \<Rightarrow> Inl e
      | Inr s \<Rightarrow> collect_samples timestamps temps precip rest (samples @ [s]))"

text \<open>Lines 73 to 92: windowing of a decoded forecast.\<close>

definition window ::
  "pyval \<Rightarrow> pyval \<Rightarrow> pyval \<Rightarrow> pyval \<Rightarrow> pyval \<Rightarrow> exn + pyval" where
  "window city latitude longitude hours data =
     then_do (py_get data ''hourly'' (PDict [])) (\<lambda>hourly.
     then_do (py_get hourly ''time'' (PList [])) (\<lambda>timestamps.
     then_do (py_get hourly ''temperature_2m'' (PList [])) (\<lambda>temps.
     then_do (py_get hourly ''precipitation_probability'' (PList [])) (\<lambda>precip.
     then_do (py_len timestamps) (\<lambda>n.
     then_do (py_min_int hours (int n)) (\<lambda>count.
     then_do (py_range count) (\<lambda>idxs.
     then_do (collect_samples timestamps temps precip idxs []) (\<lambda>samples.
       Inr (PDict [(''city'', city),
                   (''latitude'', latitude),
                   (''longitude'', longitude),
                   (''window_hours'', PInt (int (length samples))),
                   (''samples'', PList samples)])))))))))"

text \<open>
  \<^verbatim>\<open>fetch_weather_window(city, hours)\<close>: the requests it sent, in order, and either the
  exception it raised to its caller or the dictionary it returned.
\<close>

definition fetch_weather_window ::
  "providers \<Rightarrow> pyval \<Rightarrow> pyval \<Rightarrow> request list \<times> (exn + pyval)" where
  "fetch_weather_window P city hours =
     (case clamp_hours hours of
        Inl e \<Rightarrow> ([], Inl e)
      | Inr hours' \<Rightarrow>
         (case geocode P city of
            Raises exc \<Rightarrow>
              ([GeocodeRequest city],
               Inr (PDict [(''city'', city),
                           (''error'', PStr (''Geocoding failed: '' @ exc))]))
          | Returns geo_json \<Rightarrow>
             (case first_match geo_json of
                Inl e \<Rightarrow> ([GeocodeRequest city], Inl e)
              | Inr None \<Rightarrow>
                  ([GeocodeRequest city],
                   Inr (PDict [(''city'', city),
                               (''error'', PStr ''No geocoding match'')]))
              | Inr (Some (latitude, longitude)) \<Rightarrow>
                 (case forecast P latitude longitude of
                    Raises exc \<Rightarrow>
                      ([GeocodeRequest city, ForecastRequest latitude longitude],
                       Inr (PDict [(''city'', city),
                                   (''error'', PStr (''Forecast fetch failed: '' @ exc))]))
                  | Returns data \<Rightarrow>
                      ([GeocodeRequest city, ForecastRequest latitude longitude],
                       window city latitude longitude hours' data)))))"

section \<open>The tool dispatcher\<close>

text \<open>
  A tool invocation request of the chat endpoint: \<^verbatim>\<open>tool_call.id\<close>,
  \<^verbatim>\<open>tool_call.function.name\<close> and \<^verbatim>\<open>tool_call.function.arguments\<close>, all strings.
\<close>

record fn_call =
  fn_name :: string
  fn_arguments :: string

record tool_call =
  call_id :: string
  call_function :: fn_call

text \<open>
  The JSON library is a parameter of the model. \<^verbatim>\<open>json.loads\<close> on a string returns a
  value or raises: \<^verbatim>\<open>JSONDecodeError\<close> on a string that is not JSON, \<^verbatim>\<open>ValueError\<close> on
  an integer of more digits than the interpreter converts, \<^verbatim>\<open>RecursionError\<close> on
  nesting deeper than the interpreter follows. \<^verbatim>\<open>json.dumps\<close> serialises a value, and
  every value of type \<open>pyval\<close> is serialisable.
\<close>

record json_lib =
  loads :: "string \<Rightarrow> exn + pyval"
  dumps :: "pyval \<Rightarrow> string"

text \<open>
  Lines 119 to 123: the clause \<^verbatim>\<open>except json.JSONDecodeError\<close> returns the empty
  dictionary; any other exception of \<^verbatim>\<open>json.loads\<close> leaves the function.
\<close>

definition parse_arguments :: "json_lib \<Rightarrow> string \<Rightarrow> exn + pyval" where
  "parse_arguments J raw =
     (case loads J raw of
        Inr v \<Rightarrow> Inr v
      | Inl e \<Rightarrow> if e = JSONDecodeError then Inr (PDict []) else Inl e)"

text \<open>
  Line 130, \<^verbatim>\<open>fetch_weather_window(**args)\<close>: the interpreter raises \<^verbatim>\<open>TypeError\<close>
  when \<open>args\<close> is not a mapping, when it has a key that is no parameter of the function,
  and when the required \<open>city\<close> is missing; \<open>hours\<close> defaults to 12.
\<close>

definition call_fetch_weather_window ::
  "providers \<Rightarrow> pyval \<Rightarrow> request list \<times> (exn + pyval)" where
  "call_fetch_weather_window P args =
     (case args of
        PDict kw \<Rightarrow>
          if \<not> list_all (\<lambda>k. k = ''city'' \<or> k = ''hours'') (map fst kw)
          then ([], Inl TypeError)
          else (case map_of kw ''city'' of
                  None \<Rightarrow> ([], Inl TypeError)
                | Some city \<Rightarrow>
                    fetch_weather_window P city
                      (case map_of kw ''hours'' of None \<Rightarrow> PInt 12 | Some hours \<Rightarrow> hours))
      | _ \<Rightarrow> ([], Inl TypeError))"

definition handle_tool_call ::
  "json_lib \<Rightarrow> providers \<Rightarrow> tool_call \<Rightarrow> request list \<times> (exn + pyval)" where
  "handle_tool_call J P tool_call =
     (let name = fn_name (call_function tool_call)
      in case parse_arguments J (fn_arguments (call_function tool_call)) of
           Inl e \<Rightarrow> ([], Inl e)
         | Inr args \<Rightarrow>
             if name = ''fetch_weather_window'' then call_fetch_weather_window P args
             else ([], Inr (PDict [(''error'', PStr (''Unknown tool '' @ name))])))"

section \<open>Text\<close>

text \<open>
  \<^verbatim>\<open>str.strip()\<close> and \<^verbatim>\<open>str.lower()\<close> on code points below 256: the whitespace is
  the characters 9 to 13, 28 to 32, 133 and 160; the capitals are A to Z and the
  Latin-1 capitals 192 to 222 without the multiplication sign 215.
\<close>

definition isspace :: "char \<Rightarrow> bool" where
  "isspace c = (let n = (of_char c :: nat)
                in (9 \<le> n \<and> n \<le> 13) \<or> (28 \<le> n \<and> n \<le> 32) \<or> n = 133 \<or> n = 160)"

definition strip :: "string \<Rightarrow> string" where
  "strip s = rev (dropWhile isspace (rev (dropWhile isspace s)))"

definition lower_char :: "char \<Rightarrow> char" where
  "lower_char c = (let n = (of_char c :: nat)
                   in if (65 \<le> n \<and> n \<le> 90) \<or> (192 \<le> n \<and> n \<le> 222 \<and> n \<noteq> 215)
                      then char_of (n + 32) else c)"

definition lower :: "string \<Rightarrow> string" where
  "lower s = map lower_char s"

text \<open>
  \<^verbatim>\<open>extract_text\<close>: a string is returned as it is; of a list, the parts that are
  dictionaries of type \<^verbatim>\<open>"text"\<close> contribute their \<^verbatim>\<open>"text"\<close> entry (the empty string
  when absent), and \<^verbatim>\<open>"".join\<close> raises \<^verbatim>\<open>TypeError\<close> on a chunk that is no string;
  any other payload gives the empty string.
\<close>

fun text_chunk :: "pyval \<Rightarrow> pyval option" where
  "text_chunk (PDict part) =
     (if map_of part ''type'' = Some (PStr ''text'')
      then Some (case map_of part ''text'' of None \<Rightarrow> PStr [] | Some v \<Rightarrow> v)
      else None)"
| "text_chunk _ = None"

fun join_chunks :: "pyval list \<Rightarrow> exn + string" where
  "join_chunks [] = Inr []"
| "join_chunks (PStr s # chunks) = then_do (join_chunks chunks) (\<lambda>r. Inr (s @ r))"
| "join_chunks (_ # chunks) = Inl TypeError"

fun extract_text :: "pyval \<Rightarrow> exn + string" where
  "extract_text (PStr payload) = Inr payload"
| "extract_text (PList payload) = join_chunks (List.map_filter text_chunk payload)"
| "extract_text _ = Inr []"

section \<open>The conversation loop\<close>

text \<open>
  A transcript entry is a dictionary with the keys \<^verbatim>\<open>role\<close> and \<^verbatim>\<open>content\<close>, and for
  some entries \<^verbatim>\<open>tool_calls\<close> or \<^verbatim>\<open>tool_call_id\<close>: a key that is absent is \<open>None\<close>.
\<close>

record tool_call_entry =
  entry_id :: string
  entry_type :: string
  entry_function :: fn_call

record message =
  role :: string
  content :: pyval
  tool_calls :: "tool_call_entry list option"
  tool_call_id :: "string option"

text \<open>The message of a chat completion: \<^verbatim>\<open>response.choices[0].message\<close>.\<close>

record reply =
  reply_content :: pyval
  reply_tool_calls :: "tool_call list option"

text \<open>
  The surroundings of a session: the \<^verbatim>\<open>API_KEY\<close> of the environment, the chat endpoint,
  the two weather providers and the JSON library. The endpoint and the providers may
  answer differently each time they are asked: they take the number of external calls
  made so far. A chat request either raises or returns one message.
\<close>

record world =
  api_key :: "string option"
  chat :: "nat \<Rightarrow> message list \<Rightarrow> exn + reply"
  tools :: "nat \<Rightarrow> providers"
  json :: json_lib

text \<open>
  Where \<^verbatim>\<open>run_cli\<close> stands: about to read a line (line 161), about to ask the endpoint
  (line 181), inside the loop over the requests of a reply with the requests still to
  handle (line 208), returned, left by \<^verbatim>\<open>sys.exit\<close>, or ended by an exception. An
  interrupt from the keyboard, which can arrive at any moment, is not part of the model.
\<close>

datatype control =
    ReadInput
  | CallModel
  | Dispatch "tool_call list"
  | Returned
  | Exited nat
  | Raised exn

text \<open>
  The state of a session: the transcript \<open>messages\<close>, the lines still to come on the
  standard input (none left is the end of input), what was written to the standard
  output, one entry for each write, and the number of external calls made.
\<close>

record config =
  control :: control
  messages :: "message list"
  stdin :: "string list"
  stdout :: "string list"
  clock :: nat

definition SYSTEM_MESSAGE :: string where
  "SYSTEM_MESSAGE =
     ''You are Tour Assistant, a collaborative travel planner. '' @
     ''Lean on the available weather tool whenever the user shares a location, '' @
     ''and respond with concise, engaging guidance tailored to their plans.''"

definition system_message :: message where
  "system_message =
     \<lparr>role = ''system'', content = PStr SYSTEM_MESSAGE, tool_calls = None, tool_call_id = None\<rparr>"

definition user_message :: "string \<Rightarrow> message" where
  "user_message user_text =
     \<lparr>role = ''user'', content = PStr user_text, tool_calls = None, tool_call_id = None\<rparr>"

text \<open>Lines 192 to 206: the assistant entry that keeps the requests of a reply.\<close>

definition request_entry :: "tool_call \<Rightarrow> tool_call_entry" where
  "request_entry call =
     \<lparr>entry_id = call_id call, entry_type = ''function'',
      entry_function = \<lparr>fn_name = fn_name (call_function call),
                         fn_arguments = fn_arguments (call_function call)\<rparr>\<rparr>"

definition assistant_request :: "pyval \<Rightarrow> tool_call list \<Rightarrow> message" where
  "assistant_request text calls =
     \<lparr>role = ''assistant'', content = text,
      tool_calls = Some (map request_entry calls), tool_call_id = None\<rparr>"

text \<open>Lines 211 to 215: the entry that answers one request.\<close>

definition tool_message :: "string \<Rightarrow> string \<Rightarrow> message" where
  "tool_message cid text =
     \<lparr>role = ''tool'', content = PStr text, tool_calls = None, tool_call_id = Some cid\<rparr>"

definition assistant_message :: "string \<Rightarrow> message" where
  "assistant_message assistant_text =
     \<lparr>role = ''assistant'', content = PStr assistant_text,
      tool_calls = None, tool_call_id = None\<rparr>"

text \<open>\<^verbatim>\<open>print(s)\<close> writes \<open>s\<close> and a newline.\<close>

definition py_print :: "string \<Rightarrow> config \<Rightarrow> config" where
  "py_print s c = c\<lparr>stdout := stdout c @ [s @ [CHR 0x0A]]\<rparr>"

definition divider :: string where
  "divider = replicate 60 CHR ''-''"

definition print_response :: "string \<Rightarrow> config \<Rightarrow> config" where
  "print_response text c = py_print divider (py_print (strip text) (py_print divider c))"

text \<open>
  Lines 154 to 157: without an \<^verbatim>\<open>API_KEY\<close> the process exits with status 1; otherwise
  the transcript starts with the system message.
\<close>

definition start :: "world \<Rightarrow> string list \<Rightarrow> config" where
  "start W input_lines =
     (let c = \<lparr>control = ReadInput, messages = [], stdin = input_lines, stdout = [], clock = 0\<rparr>;
          missing = (py_print ''Missing API_KEY. Set it in your environment or .env file.'' c)
                      \<lparr>control := Exited 1\<rparr>;
          ready = py_print
                    (''Tour Assistant chat ready. Type '' @ [CHR 0x27] @ ''/reset'' @ [CHR 0x27] @
                     '' to clear or '' @ [CHR 0x27] @ ''/exit'' @ [CHR 0x27] @ '' to quit.'')
                    (c\<lparr>messages := [system_message]\<rparr>)
      in case api_key W of
           None \<Rightarrow> missing
         | Some k \<Rightarrow> if k = [] then missing else ready)"

text \<open>Lines 160 to 178: one line of input, stripped, as a command or as a user turn.\<close>

definition read_input :: "config \<Rightarrow> config" where
  "read_input c =
     (let c1 = c\<lparr>stdout := stdout c @ [''You> '']\<rparr>
      in case stdin c of
           [] \<Rightarrow> (py_print (CHR 0x0A # ''EOF received. Bye!'') c1)\<lparr>control := Returned\<rparr>
         | line # rest \<Rightarrow>
            (let c2 = c1\<lparr>stdin := rest\<rparr>;
                 user_text = strip line
             in if user_text = [] then c2
                else
                  (let lowered = lower user_text
                   in if lowered = ''/exit'' \<or> lowered = ''/quit''
                      then (py_print ''Bon voyage!'' c2)\<lparr>control := Returned\<rparr>
                      else if lowered = ''/reset''
                      then py_print ''Conversation reset.'' (c2\<lparr>messages := [system_message]\<rparr>)
                      else c2\<lparr>messages := messages c2 @ [user_message user_text],
                              control := CallModel\<rparr>)))"

text \<open>
  Lines 181 to 207 and 219 to 223: one request to the endpoint. A reply with requests
  is kept in the transcript and its requests are dispatched; any other reply is printed
  and ends the turn.
\<close>

definition call_model :: "world \<Rightarrow> config \<Rightarrow> config" where
  "call_model W c =
     (case chat W (clock c) (messages c) of
        Inl e \<Rightarrow> c\<lparr>control := Raised e\<rparr>
      | Inr message \<Rightarrow>
         (let c1 = c\<lparr>clock := clock c + 1\<rparr>
          in case reply_tool_calls message of
               Some (call # calls) \<Rightarrow>
                 c1\<lparr>messages := messages c1 @
                                 [assistant_request (reply_content message) (call # calls)],
                    control := Dispatch (call # calls)\<rparr>
             | _ \<Rightarrow>
                (case extract_text (reply_content message) of
                   Inl e \<Rightarrow> c1\<lparr>control := Raised e\<rparr>
                 | Inr assistant_text \<Rightarrow>
                    (let printable = (if strip assistant_text \<noteq> [] then strip assistant_text
                                      else ''Assistant returned no narrative.'')
                     in (print_response printable c1)
                          \<lparr>messages := messages c1 @ [assistant_message assistant_text],
                           control := ReadInput\<rparr>))))"

text \<open>Lines 208 to 216: one request of the loop.\<close>

definition dispatch :: "world \<Rightarrow> tool_call \<Rightarrow> tool_call list \<Rightarrow> config \<Rightarrow> config" where
  "dispatch W tool_call rest c =
     (case snd (handle_tool_call (json W) (tools W (clock c)) tool_call) of
        Inl e \<Rightarrow> c\<lparr>control := Raised e\<rparr>
      | Inr tool_result \<Rightarrow>
          c\<lparr>messages := messages c @ [tool_message (call_id tool_call) (dumps (json W) tool_result)],
            control := Dispatch rest,
            clock := clock c + 1\<rparr>)"

text \<open>One step of \<^verbatim>\<open>run_cli\<close>; a session that has ended stays as it is.\<close>

definition step :: "world \<Rightarrow> config \<Rightarrow> config" where
  "step W c =
     (case control c of
        ReadInput \<Rightarrow> read_input c
      | CallModel \<Rightarrow> call_model W c
      | Dispatch [] \<Rightarrow> c\<lparr>control := CallModel\<rparr>
      | Dispatch (tool_call # rest) \<Rightarrow> dispatch W tool_call rest c
      | Returned \<Rightarrow> c
      | Exited code \<Rightarrow> c
      | Raised e \<Rightarrow> c)"

section \<open>Properties of documents and transcripts\<close>

text \<open>
  The shape the two providers document for their answers. A geocoding answer is an
  object whose \<^verbatim>\<open>results\<close>, when present and not empty, is a list that starts with an
  object holding a latitude and a longitude. A forecast answer is an object whose
  \<^verbatim>\<open>hourly\<close>, when present, is an object whose three series, when present, are lists.
\<close>

definition absent_or_list :: "(string \<times> pyval) list \<Rightarrow> string \<Rightarrow> bool" where
  "absent_or_list d k =
     (case map_of d k of None \<Rightarrow> True | Some (PList xs) \<Rightarrow> True | Some _ \<Rightarrow> False)"

fun wellformed_geocoding :: "pyval \<Rightarrow> bool" where
  "wellformed_geocoding (PDict g) =
     (case map_of g ''results'' of
        None \<Rightarrow> True
      | Some (PList []) \<Rightarrow> True
      | Some (PList (PDict r # others)) \<Rightarrow>
          map_of r ''latitude'' \<noteq> None \<and> map_of r ''longitude'' \<noteq> None
      | Some _ \<Rightarrow> False)"
| "wellformed_geocoding _ = False"

fun wellformed_forecast :: "pyval \<Rightarrow> bool" where
  "wellformed_forecast (PDict d) =
     (case map_of d ''hourly'' of
        None \<Rightarrow> True
      | Some (PDict hr) \<Rightarrow>
          absent_or_list hr ''time'' \<and> absent_or_list hr ''temperature_2m'' \<and>
          absent_or_list hr ''precipitation_probability''
      | Some _ \<Rightarrow> False)"
| "wellformed_forecast _ = False"

text \<open>
  The correlation of tool results with requests. Reading a transcript from its start,
  \<open>pending\<close> holds the ids requested by the assistant entry that directly precedes the
  current run of tool entries: an assistant entry sets it to its own requests, any
  other entry that is no tool entry clears it, and every tool entry must carry one of
  the pending ids.
\<close>

definition request_ids :: "message \<Rightarrow> string list" where
  "request_ids m = (case tool_calls m of None \<Rightarrow> [] | Some entries \<Rightarrow> map entry_id entries)"

fun answers_pending :: "string list \<Rightarrow> message list \<Rightarrow> bool" where
  "answers_pending pending [] = True"
| "answers_pending pending (m # ms) =
     (if role m = ''tool''
      then (case tool_call_id m of None \<Rightarrow> False | Some cid \<Rightarrow> cid \<in> set pending)
           \<and> answers_pending pending ms
      else if role m = ''assistant'' then answers_pending (request_ids m) ms
      else answers_pending [] ms)"

fun pending_after :: "string list \<Rightarrow> message list \<Rightarrow> string list" where
  "pending_after pending [] = pending"
| "pending_after pending (m # ms) =
     (if role m = ''tool'' then pending_after pending ms
      else if role m = ''assistant'' then pending_after (request_ids m) ms
      else pending_after [] ms)"

text \<open>
  The invariant of a session: the transcript correlates, and the requests still to
  dispatch are pending at its end.
\<close>

definition dispatch_ok :: "config \<Rightarrow> bool" where
  "dispatch_ok c =
     (answers_pending [] (messages c) \<and>
      (case control c of
         Dispatch todo \<Rightarrow> set (map call_id todo) \<subseteq> set (pending_after [] (messages c))
       | _ \<Rightarrow> True))"

section \<open>Example surroundings\<close>

text \<open>Providers that give the same answer to every request.\<close>

definition fixed_providers :: "http_result \<Rightarrow> http_result \<Rightarrow> providers" where
  "fixed_providers g f = \<lparr>geocode = (\<lambda>city. g), forecast = (\<lambda>latitude longitude. f)\<rparr>"

definition paris_match :: pyval where
  "paris_match =
     PDict [(''results'', PList [PDict [(''name'', PStr ''Paris''),
                                        (''latitude'', PFloat 48.85),
                                        (''longitude'', PFloat 2.35)]])]"

text \<open>A forecast with five timestamps, three temperatures and five probabilities.\<close>

definition short_temps_forecast :: pyval where
  "short_temps_forecast =
     PDict [(''hourly'', PDict
       [(''time'', PList [PStr ''T00'', PStr ''T01'', PStr ''T02'', PStr ''T03'', PStr ''T04'']),
        (''temperature_2m'', PList [PInt 11, PInt 12, PInt 13]),
        (''precipitation_probability'', PList [PInt 0, PInt 5, PInt 10, PInt 20, PInt 40])])]"

text \<open>A forecast whose first timestamp is null.\<close>

definition null_time_forecast :: pyval where
  "null_time_forecast =
     PDict [(''hourly'', PDict
       [(''time'', PList [PNone, PStr ''T01'']),
        (''temperature_2m'', PList [PInt 11, PInt 12]),
        (''precipitation_probability'', PList [PInt 0, PInt 5])])]"

definition quoted :: "string \<Rightarrow> string" where
  "quoted s = CHR 0x22 # s @ [CHR 0x22]"

text \<open>
  A JSON library for the examples. The decoder raises \<^verbatim>\<open>ValueError\<close> on an integer of
  more than 4300 digits 1, knows the two documents the examples decode, and the other
  strings the examples give it are not JSON; the encoder is right on the dictionaries of
  one or two plain strings the examples serialise.
\<close>

definition sample_loads :: "string \<Rightarrow> exn + pyval" where
  "sample_loads raw =
     (if 4300 < length raw \<and> list_all (\<lambda>c. c = CHR ''1'') raw then Inl ValueError
      else if raw = ''{'' @ quoted ''city'' @ '': '' @ quoted ''Paris'' @ ''}''
      then Inr (PDict [(''city'', PStr ''Paris'')])
      else if raw = ''{}'' then Inr (PDict [])
      else Inl JSONDecodeError)"

definition sample_dumps :: "pyval \<Rightarrow> string" where
  "sample_dumps v =
     (case v of
        PDict [(k, PStr s)] \<Rightarrow> ''{'' @ quoted k @ '': '' @ quoted s @ ''}''
      | PDict [(k, PStr s), (k', PStr s')] \<Rightarrow>
          ''{'' @ quoted k @ '': '' @ quoted s @ '', '' @ quoted k' @ '': '' @ quoted s' @ ''}''
      | _ \<Rightarrow> ''null'')"

definition sample_json :: json_lib where
  "sample_json = \<lparr>loads = sample_loads, dumps = sample_dumps\<rparr>"

definition weather_call :: tool_call where
  "weather_call =
     \<lparr>call_id = ''call_1'',
      call_function = \<lparr>fn_name = ''fetch_weather_window'',
                        fn_arguments = ''{'' @ quoted ''city'' @ '': '' @ quoted ''Paris'' @ ''}''\<rparr>\<rparr>"

text \<open>
  An endpoint that asks for the weather when the transcript holds the system message
  and one user message, and answers in plain text otherwise.
\<close>

definition demo_chat :: "nat \<Rightarrow> message list \<Rightarrow> exn + reply" where
  "demo_chat n ms =
     (if length ms = 2
      then Inr \<lparr>reply_content = PNone, reply_tool_calls = Some [weather_call]\<rparr>
      else Inr \<lparr>reply_content = PStr ''Pack an umbrella.'', reply_tool_calls = None\<rparr>)"

definition constant_chat :: "reply \<Rightarrow> nat \<Rightarrow> message list \<Rightarrow> exn + reply" where
  "constant_chat r n ms = Inr r"

definition demo_world :: world where
  "demo_world =
     \<lparr>api_key = Some ''secret'',
      chat = demo_chat,
      tools = (\<lambda>n. fixed_providers (Raises ''timed out'') (Raises ''timed out'')),
      json = sample_json\<rparr>"

section \<open>The weather window tool: results\<close>

lemma clamp_hours_int: "clamp_hours (PInt h) = Inr (PInt (max 1 (min h 24)))"
  by (simp add: clamp_hours_def then_do_def py_min_int_def py_max_int_def max_def min_def)


subsection \<open>Windowing of well-formed series\<close>

lemma sample_at_lists:
  "idx < length ts \<Longrightarrow>
   sample_at (PList ts) (PList te) (PList pr) idx =
     Inr (PDict [(''time'', ts ! idx),
                 (''temperature_c'', if idx < length te then te ! idx else PNone),
                 (''precipitation_probability'', if idx < length pr then pr ! idx else PNone)])"
  by (simp add: sample_at_def item_or_none_def then_do_def)

lemma collect_samples_lists:
  "\<forall>i \<in> set idxs. i < length ts \<Longrightarrow>
   collect_samples (PList ts) (PList te) (PList pr) idxs acc =
     Inr (acc @ map (\<lambda>idx. PDict [(''time'', ts ! idx),
                 (''temperature_c'', if idx < length te then te ! idx else PNone),
                 (''precipitation_probability'', if idx < length pr then pr ! idx else PNone)]) idxs)"
proof (induction idxs arbitrary: acc)
  case Nil
  then show ?case by simp
next
  case (Cons i idxs)
  then show ?case by (simp add: sample_at_lists)
qed

lemma window_lists:
  assumes "py_get data ''hourly'' (PDict []) = Inr hourly"
    and "py_get hourly ''time'' (PList []) = Inr (PList ts)"
    and "py_get hourly ''temperature_2m'' (PList []) = Inr (PList te)"
    and "py_get hourly ''precipitation_probability'' (PList []) = Inr (PList pr)"
  shows "window city latitude longitude (PInt k) data =
     Inr (PDict [(''city'', city), (''latitude'', latitude), (''longitude'', longitude),
        (''window_hours'', PInt (int (min (nat k) (length ts)))),
        (''samples'', PList (map (\<lambda>idx. PDict [(''time'', ts ! idx),
                 (''temperature_c'', if idx < length te then te ! idx else PNone),
                 (''precipitation_probability'', if idx < length pr then pr ! idx else PNone)])
             [0 ..< min (nat k) (length ts)]))])"
proof -
  have idxs: "then_do (py_min_int (PInt k) (int (length ts))) (\<lambda>count. then_do (py_range count) f)
      = f [0 ..< min (nat k) (length ts)]" for f :: "nat list \<Rightarrow> exn + pyval"
    by (auto simp add: py_min_int_def then_do_def min_def)
  have "\<forall>i \<in> set [0 ..< min (nat k) (length ts)]. i < length ts" by simp
  note cs = collect_samples_lists [OF this, of te pr "[]"]
  show ?thesis
    unfolding window_def using assms
    by (simp add: then_do_def[of "Inr _"] idxs cs)
qed

lemma first_match_found:
  assumes "map_of g ''results'' = Some (PList (PDict r # others))"
    and "map_of r ''latitude'' = Some lat" and "map_of r ''longitude'' = Some lon"
  shows "first_match (PDict g) = Inr (Some (lat, lon))"
  using assms by (simp add: first_match_def then_do_def)

lemma fetch_lists:
  assumes "geocode P city = Returns (PDict g)"
    and "map_of g ''results'' = Some (PList (PDict r # others))"
    and "map_of r ''latitude'' = Some lat"
    and "map_of r ''longitude'' = Some lon"
    and "forecast P lat lon = Returns (PDict d)"
    and "map_of d ''hourly'' = Some (PDict hr)"
    and "map_of hr ''time'' = Some (PList ts)"
    and "map_of hr ''temperature_2m'' = Some (PList te)"
    and "map_of hr ''precipitation_probability'' = Some (PList pr)"
    and "n = min (nat (max 1 (min h 24))) (length ts)"
  shows "fetch_weather_window P city (PInt h) =
     ([GeocodeRequest city, ForecastRequest lat lon],
      Inr (PDict [(''city'', city), (''latitude'', lat), (''longitude'', lon),
        (''window_hours'', PInt (int n)),
        (''samples'', PList (map (\<lambda>idx. PDict [(''time'', ts ! idx),
                 (''temperature_c'', if idx < length te then te ! idx else PNone),
                 (''precipitation_probability'', if idx < length pr then pr ! idx else PNone)])
             [0 ..< n]))]))"
proof -
  have fm: "first_match (PDict g) = Inr (Some (lat, lon))"
    using assms(2,3,4) by (rule first_match_found)
  have w: "window city lat lon (PInt (max 1 (min h 24))) (PDict d) =
     Inr (PDict [(''city'', city), (''latitude'', lat), (''longitude'', lon),
        (''window_hours'', PInt (int n)),
        (''samples'', PList (map (\<lambda>idx. PDict [(''time'', ts ! idx),
                 (''temperature_c'', if idx < length te then te ! idx else PNone),
                 (''precipitation_probability'', if idx < length pr then pr ! idx else PNone)])
             [0 ..< n]))])"
    unfolding assms(10)
    by (rule window_lists [where hourly = "PDict hr"]) (simp_all add: assms)
  show ?thesis
    by (simp add: fetch_weather_window_def clamp_hours_int assms(1,5) fm w)
qed

lemma upt_5: "[0 ..< 5] = [0, 1, 2, 3, 4::nat]"
  by (simp add: upt_rec)

lemma fetch_paris_short_temps:
  "fetch_weather_window (fixed_providers (Returns paris_match) (Returns short_temps_forecast))
      (PStr ''Paris'') (PInt 12) =
     ([GeocodeRequest (PStr ''Paris''), ForecastRequest (PFloat 48.85) (PFloat 2.35)],
      Inr (PDict [(''city'', PStr ''Paris''), (''latitude'', PFloat 48.85), (''longitude'', PFloat 2.35),
        (''window_hours'', PInt 5),
        (''samples'', PList [
           PDict [(''time'', PStr ''T00''), (''temperature_c'', PInt 11), (''precipitation_probability'', PInt 0)],
           PDict [(''time'', PStr ''T01''), (''temperature_c'', PInt 12), (''precipitation_probability'', PInt 5)],
           PDict [(''time'', PStr ''T02''), (''temperature_c'', PInt 13), (''precipitation_probability'', PInt 10)],
           PDict [(''time'', PStr ''T03''), (''temperature_c'', PNone), (''precipitation_probability'', PInt 20)],
           PDict [(''time'', PStr ''T04''), (''temperature_c'', PNone), (''precipitation_probability'', PInt 40)]])]))"
  using fetch_lists [of
      "fixed_providers (Returns paris_match) (Returns short_temps_forecast)" "PStr ''Paris''"
      "[(''results'', PList [PDict [(''name'', PStr ''Paris''),
          (''latitude'', PFloat 48.85), (''longitude'', PFloat 2.35)]])]"
      "[(''name'', PStr ''Paris''), (''latitude'', PFloat 48.85), (''longitude'', PFloat 2.35)]"
      "[]" "PFloat 48.85" "PFloat 2.35"
      "[(''hourly'', PDict
     [(''time'', PList [PStr ''T00'', PStr ''T01'', PStr ''T02'', PStr ''T03'', PStr ''T04'']),
      (''temperature_2m'', PList [PInt 11, PInt 12, PInt 13]),
      (''precipitation_probability'', PList [PInt 0, PInt 5, PInt 10, PInt 20, PInt 40])])]"
      "[(''time'', PList [PStr ''T00'', PStr ''T01'', PStr ''T02'', PStr ''T03'', PStr ''T04'']),
      (''temperature_2m'', PList [PInt 11, PInt 12, PInt 13]),
      (''precipitation_probability'', PList [PInt 0, PInt 5, PInt 10, PInt 20, PInt 40])]"
      "[PStr ''T00'', PStr ''T01'', PStr ''T02'', PStr ''T03'', PStr ''T04'']"
      "[PInt 11, PInt 12, PInt 13]" "[PInt 0, PInt 5, PInt 10, PInt 20, PInt 40]" 5 12]
  by (simp add: fixed_providers_def paris_match_def short_temps_forecast_def upt_5)

text \<open>
  C4. When the geocoding answer has a first match with coordinates and the forecast
  answer has the three hourly series, \<^verbatim>\<open>fetch_weather_window\<close> sends the two requests
  and returns the first \<open>n\<close> entries zipped by position, where \<open>n\<close> is the smaller of the
  clamped \<open>hours\<close> and the number of timestamps; a temperature or a probability is null
  at an index its series does not reach; \<^verbatim>\<open>window_hours\<close> is \<open>n\<close>, the number of samples.
\<close>

theorem fetch_weather_window_zips_window:
  assumes "geocode P (PStr city) = Returns (PDict g)"
    and "map_of g ''results'' = Some (PList (PDict r # others))"
    and "map_of r ''latitude'' = Some lat"
    and "map_of r ''longitude'' = Some lon"
    and "forecast P lat lon = Returns (PDict d)"
    and "map_of d ''hourly'' = Some (PDict hr)"
    and "map_of hr ''time'' = Some (PList ts)"
    and "map_of hr ''temperature_2m'' = Some (PList te)"
    and "map_of hr ''precipitation_probability'' = Some (PList pr)"
    and "n = min (nat (max 1 (min h 24))) (length ts)"
  shows "fetch_weather_window P (PStr city) (PInt h) =
     ([GeocodeRequest (PStr city), ForecastRequest lat lon],
      Inr (PDict [(''city'', PStr city), (''latitude'', lat), (''longitude'', lon),
        (''window_hours'', PInt (int n)),
        (''samples'', PList (map (\<lambda>idx. PDict [(''time'', ts ! idx),
                 (''temperature_c'', if idx < length te then te ! idx else PNone),
                 (''precipitation_probability'', if idx < length pr then pr ! idx else PNone)])
             [0 ..< n]))]))"
  using assms by (rule fetch_lists)

text \<open>
  The forecast of five timestamps and three temperatures, asked for twelve hours: five
  samples, the last two without a temperature.
\<close>

theorem fetch_weather_window_zips_window_witness:
  "fetch_weather_window (fixed_providers (Returns paris_match) (Returns short_temps_forecast))
      (PStr ''Paris'') (PInt 12) =
     ([GeocodeRequest (PStr ''Paris''), ForecastRequest (PFloat 48.85) (PFloat 2.35)],
      Inr (PDict [(''city'', PStr ''Paris''), (''latitude'', PFloat 48.85), (''longitude'', PFloat 2.35),
        (''window_hours'', PInt 5),
        (''samples'', PList [
           PDict [(''time'', PStr ''T00''), (''temperature_c'', PInt 11), (''precipitation_probability'', PInt 0)],
           PDict [(''time'', PStr ''T01''), (''temperature_c'', PInt 12), (''precipitation_probability'', PInt 5)],
           PDict [(''time'', PStr ''T02''), (''temperature_c'', PInt 13), (''precipitation_probability'', PInt 10)],
           PDict [(''time'', PStr ''T03''), (''temperature_c'', PNone), (''precipitation_probability'', PInt 20)],
           PDict [(''time'', PStr ''T04''), (''temperature_c'', PNone), (''precipitation_probability'', PInt 40)]])]))"
  using fetch_weather_window_zips_window [of
      "fixed_providers (Returns paris_match) (Returns short_temps_forecast)" "''Paris''"
      "[(''results'', PList [PDict [(''name'', PStr ''Paris''),
          (''latitude'', PFloat 48.85), (''longitude'', PFloat 2.35)]])]"
      "[(''name'', PStr ''Paris''), (''latitude'', PFloat 48.85), (''longitude'', PFloat 2.35)]"
      "[]" "PFloat 48.85" "PFloat 2.35"
      "[(''hourly'', PDict
     [(''time'', PList [PStr ''T00'', PStr ''T01'', PStr ''T02'', PStr ''T03'', PStr ''T04'']),
      (''temperature_2m'', PList [PInt 11, PInt 12, PInt 13]),
      (''precipitation_probability'', PList [PInt 0, PInt 5, PInt 10, PInt 20, PInt 40])])]"
      "[(''time'', PList [PStr ''T00'', PStr ''T01'', PStr ''T02'', PStr ''T03'', PStr ''T04'']),
      (''temperature_2m'', PList [PInt 11, PInt 12, PInt 13]),
      (''precipitation_probability'', PList [PInt 0, PInt 5, PInt 10, PInt 20, PInt 40])]"
      "[PStr ''T00'', PStr ''T01'', PStr ''T02'', PStr ''T03'', PStr ''T04'']"
      "[PInt 11, PInt 12, PInt 13]" "[PInt 0, PInt 5, PInt 10, PInt 20, PInt 40]" 5 12]
  by (simp add: fixed_providers_def paris_match_def short_temps_forecast_def upt_5)

text \<open>
  C5. When the geocoding request succeeds with no match (no \<^verbatim>\<open>results\<close>, or an empty
  list), \<^verbatim>\<open>fetch_weather_window\<close> sends the geocoding request only and returns the
  dictionary of exactly two entries, the city as given and the error
  \<^verbatim>\<open>No geocoding match\<close>.
\<close>

theorem fetch_weather_window_no_match:
  assumes "geocode P (PStr city) = Returns (PDict g)"
    and "map_of g ''results'' = None \<or> map_of g ''results'' = Some (PList [])"
  shows "fetch_weather_window P (PStr city) (PInt h) =
     ([GeocodeRequest (PStr city)],
      Inr (PDict [(''city'', PStr city), (''error'', PStr ''No geocoding match'')]))"
proof -
  have "first_match (PDict g) = Inr None"
    using assms(2) by (auto simp add: first_match_def then_do_def)
  then show ?thesis
    by (simp add: fetch_weather_window_def clamp_hours_int assms(1))
qed

theorem fetch_weather_window_no_match_witness:
  "fetch_weather_window
      (fixed_providers (Returns (PDict [(''results'', PList [])])) (Returns short_temps_forecast))
      (PStr ''Atlantis'') (PInt 6) =
     ([GeocodeRequest (PStr ''Atlantis'')],
      Inr (PDict [(''city'', PStr ''Atlantis''), (''error'', PStr ''No geocoding match'')]))"
  using fetch_weather_window_no_match [of
      "fixed_providers (Returns (PDict [(''results'', PList [])])) (Returns short_temps_forecast)"
      "''Atlantis''" "[(''results'', PList [])]" 6]
  by (simp add: fixed_providers_def)

subsection \<open>The time of a sample\<close>

lemma sample_at_time:
  assumes "sample_at (PList ts) temps precip idx = Inr s"
  shows "idx < length ts \<and> (\<exists>te pr. s = PDict [(''time'', ts ! idx), (''temperature_c'', te),
            (''precipitation_probability'', pr)])"
  using assms
  by (auto simp add: sample_at_def then_do_def split: sum.splits if_splits)

lemma collect_samples_time:
  assumes "collect_samples (PList ts) temps precip idxs acc = Inr out"
  shows "length out = length acc + length idxs \<and> take (length acc) out = acc \<and>
     (\<forall>k < length idxs. idxs ! k < length ts \<and>
        (\<exists>te pr. out ! (length acc + k) =
           PDict [(''time'', ts ! (idxs ! k)), (''temperature_c'', te),
                  (''precipitation_probability'', pr)]))"
  using assms
proof (induction idxs arbitrary: acc)
  case Nil
  then show ?case by simp
next
  case (Cons i idxs)
  from Cons.prems obtain s where s: "sample_at (PList ts) temps precip i = Inr s"
    and rest: "collect_samples (PList ts) temps precip idxs (acc @ [s]) = Inr out"
    by (auto split: sum.splits)
  note ih = Cons.IH [OF rest]
  from ih have len: "length out = length acc + length (i # idxs)" by simp
  from ih have tk: "take (Suc (length acc)) out = acc @ [s]" by simp
  have "take (length acc) (take (Suc (length acc)) out) = take (length acc) (acc @ [s])"
    by (simp only: tk)
  then have tk': "take (length acc) out = acc" by simp
  have "out ! length acc = (take (Suc (length acc)) out) ! length acc" by simp
  then have at0: "out ! length acc = s" by (simp only: tk nth_append_length)
  have "idxs' ! k < length ts \<and>
        (\<exists>te pr. out ! (length acc + k) =
           PDict [(''time'', ts ! (idxs' ! k)), (''temperature_c'', te),
                  (''precipitation_probability'', pr)])"
    if "k < length idxs'" "idxs' = i # idxs" for k idxs'
  proof (cases k)
    case 0
    then show ?thesis using sample_at_time [OF s] at0 that by auto
  next
    case (Suc j)
    then show ?thesis using ih that by auto
  qed
  with len tk' show ?case by blast
qed

lemma py_range_upt: "py_range c = Inr idxs \<Longrightarrow> \<exists>m. idxs = [0 ..< m]"
  by (cases c) auto

lemma upt_2: "[0 ..< 2] = [0, 1::nat]"
  by (simp add: upt_rec)

text \<open>
  C9, as the code has it. In a result with samples, whatever the temperature and
  probability series are, there are at most as many samples as the provider sent
  timestamps, and the time of the sample at an index is the provider's timestamp at that
  index: the code never puts null in its place for want of data, and the time is null
  exactly where the provider's own array holds null.
\<close>

theorem sample_time_from_timestamp_array:
  assumes "fetch_weather_window P city hours =
             ([GeocodeRequest city, ForecastRequest lat lon], Inr (PDict res))"
    and "map_of res ''samples'' = Some (PList ss)"
    and "forecast P lat lon = Returns (PDict d)"
    and "map_of d ''hourly'' = Some (PDict hr)"
    and "map_of hr ''time'' = Some (PList ts)"
  shows "length ss \<le> length ts \<and>
     (\<forall>i < length ss.
        (\<exists>te pr. ss ! i =
           PDict [(''time'', ts ! i), (''temperature_c'', te), (''precipitation_probability'', pr)]) \<and>
        py_item_str (ss ! i) ''time'' = Inr (ts ! i) \<and>
        (py_item_str (ss ! i) ''time'' = Inr PNone) = (ts ! i = PNone))"
proof -
  from assms(1,3) obtain hours' where
    w: "window city lat lon hours' (PDict d) = Inr (PDict res)"
    by (auto simp add: fetch_weather_window_def split: sum.splits http_result.splits option.splits)
  from w assms(4,5) obtain temps precip m out where
    cs: "collect_samples (PList ts) temps precip [0 ..< m] [] = Inr out"
    and res: "res = [(''city'', city), (''latitude'', lat), (''longitude'', lon),
                   (''window_hours'', PInt (int (length out))), (''samples'', PList out)]"
    by (auto simp add: window_def then_do_def split: sum.splits dest!: py_range_upt)
  from res assms(2) have ss: "ss = out" by simp
  note c = collect_samples_time [OF cs]
  from c have len: "length ss = m" by (simp add: ss)
  have each: "i < length ts \<and> (\<exists>te pr. ss ! i =
         PDict [(''time'', ts ! i), (''temperature_c'', te), (''precipitation_probability'', pr)])"
    if "i < length ss" for i
    using c that len ss by auto
  have bound: "length ss \<le> length ts"
  proof (cases "length ss")
    case 0
    then show ?thesis by simp
  next
    case (Suc j)
    then have "j < length ss" by simp
    from each [OF this] Suc show ?thesis by simp
  qed
  have copied: "py_item_str (ss ! i) ''time'' = Inr (ts ! i)" if "i < length ss" for i
  proof -
    from each [OF that] obtain te pr where "ss ! i =
         PDict [(''time'', ts ! i), (''temperature_c'', te), (''precipitation_probability'', pr)]"
      by blast
    then show ?thesis by simp
  qed
  have null: "(py_item_str (ss ! i) ''time'' = Inr PNone) = (ts ! i = PNone)"
    if "i < length ss" for i
    by (simp add: copied [OF that])
  from bound each copied null show ?thesis by blast
qed

text \<open>
  In the five-sample result of the example the last sample has no temperature, and its
  time is the provider's fifth timestamp.
\<close>

theorem sample_time_from_timestamp_array_witness:
  "(case snd (fetch_weather_window
               (fixed_providers (Returns paris_match) (Returns short_temps_forecast))
               (PStr ''Paris'') (PInt 12)) of
      Inr (PDict res) \<Rightarrow>
        (case map_of res ''samples'' of
           Some (PList ss) \<Rightarrow>
             length ss = 5 \<and>
             py_item_str (ss ! 4) ''temperature_c'' = Inr PNone \<and>
             py_item_str (ss ! 4) ''time'' = Inr (PStr ''T04'')
         | _ \<Rightarrow> False)
    | _ \<Rightarrow> False)"
proof -
  note run = fetch_paris_short_temps
  have samples: "map_of [(''city'', PStr ''Paris''), (''latitude'', PFloat 48.85), (''longitude'', PFloat 2.35),
        (''window_hours'', PInt 5),
        (''samples'', PList [
           PDict [(''time'', PStr ''T00''), (''temperature_c'', PInt 11), (''precipitation_probability'', PInt 0)],
           PDict [(''time'', PStr ''T01''), (''temperature_c'', PInt 12), (''precipitation_probability'', PInt 5)],
           PDict [(''time'', PStr ''T02''), (''temperature_c'', PInt 13), (''precipitation_probability'', PInt 10)],
           PDict [(''time'', PStr ''T03''), (''temperature_c'', PNone), (''precipitation_probability'', PInt 20)],
           PDict [(''time'', PStr ''T04''), (''temperature_c'', PNone), (''precipitation_probability'', PInt 40)]])]
      ''samples'' = Some (PList [
           PDict [(''time'', PStr ''T00''), (''temperature_c'', PInt 11), (''precipitation_probability'', PInt 0)],
           PDict [(''time'', PStr ''T01''), (''temperature_c'', PInt 12), (''precipitation_probability'', PInt 5)],
           PDict [(''time'', PStr ''T02''), (''temperature_c'', PInt 13), (''precipitation_probability'', PInt 10)],
           PDict [(''time'', PStr ''T03''), (''temperature_c'', PNone), (''precipitation_probability'', PInt 20)],
           PDict [(''time'', PStr ''T04''), (''temperature_c'', PNone), (''precipitation_probability'', PInt 40)]])"
    by simp
  have answer: "forecast (fixed_providers (Returns paris_match) (Returns short_temps_forecast))
        (PFloat 48.85) (PFloat 2.35) =
      Returns (PDict [(''hourly'', PDict
       [(''time'', PList [PStr ''T00'', PStr ''T01'', PStr ''T02'', PStr ''T03'', PStr ''T04'']),
        (''temperature_2m'', PList [PInt 11, PInt 12, PInt 13]),
        (''precipitation_probability'', PList [PInt 0, PInt 5, PInt 10, PInt 20, PInt 40])])])"
    by (simp add: fixed_providers_def short_temps_forecast_def)
  have hourly: "map_of [(''hourly'', PDict
       [(''time'', PList [PStr ''T00'', PStr ''T01'', PStr ''T02'', PStr ''T03'', PStr ''T04'']),
        (''temperature_2m'', PList [PInt 11, PInt 12, PInt 13]),
        (''precipitation_probability'', PList [PInt 0, PInt 5, PInt 10, PInt 20, PInt 40])])] ''hourly''
      = Some (PDict
       [(''time'', PList [PStr ''T00'', PStr ''T01'', PStr ''T02'', PStr ''T03'', PStr ''T04'']),
        (''temperature_2m'', PList [PInt 11, PInt 12, PInt 13]),
        (''precipitation_probability'', PList [PInt 0, PInt 5, PInt 10, PInt 20, PInt 40])])"
    by simp
  have stamps: "map_of
       [(''time'', PList [PStr ''T00'', PStr ''T01'', PStr ''T02'', PStr ''T03'', PStr ''T04'']),
        (''temperature_2m'', PList [PInt 11, PInt 12, PInt 13]),
        (''precipitation_probability'', PList [PInt 0, PInt 5, PInt 10, PInt 20, PInt 40])] ''time''
      = Some (PList [PStr ''T00'', PStr ''T01'', PStr ''T02'', PStr ''T03'', PStr ''T04''])"
    by simp
  from sample_time_from_timestamp_array [OF run samples answer hourly stamps]
  show ?thesis by (simp add: run)
qed

text \<open>
  A provider whose first timestamp is null: the call succeeds, and the time of the first
  sample is null.
\<close>

theorem fetch_weather_window_copies_null_timestamp:
  "fetch_weather_window (fixed_providers (Returns paris_match) (Returns null_time_forecast))
      (PStr ''Paris'') (PInt 12) =
     ([GeocodeRequest (PStr ''Paris''), ForecastRequest (PFloat 48.85) (PFloat 2.35)],
      Inr (PDict [(''city'', PStr ''Paris''), (''latitude'', PFloat 48.85), (''longitude'', PFloat 2.35),
        (''window_hours'', PInt 2),
        (''samples'', PList [
           PDict [(''time'', PNone), (''temperature_c'', PInt 11), (''precipitation_probability'', PInt 0)],
           PDict [(''time'', PStr ''T01''), (''temperature_c'', PInt 12), (''precipitation_probability'', PInt 5)]])]))"
  using fetch_lists [of
      "fixed_providers (Returns paris_match) (Returns null_time_forecast)" "PStr ''Paris''"
      "[(''results'', PList [PDict [(''name'', PStr ''Paris''),
          (''latitude'', PFloat 48.85), (''longitude'', PFloat 2.35)]])]"
      "[(''name'', PStr ''Paris''), (''latitude'', PFloat 48.85), (''longitude'', PFloat 2.35)]"
      "[]" "PFloat 48.85" "PFloat 2.35"
      "[(''hourly'', PDict
       [(''time'', PList [PNone, PStr ''T01'']),
        (''temperature_2m'', PList [PInt 11, PInt 12]),
        (''precipitation_probability'', PList [PInt 0, PInt 5])])]"
      "[(''time'', PList [PNone, PStr ''T01'']),
        (''temperature_2m'', PList [PInt 11, PInt 12]),
        (''precipitation_probability'', PList [PInt 0, PInt 5])]"
      "[PNone, PStr ''T01'']" "[PInt 11, PInt 12]" "[PInt 0, PInt 5]" 2 12]
  by (simp add: fixed_providers_def paris_match_def null_time_forecast_def upt_2)

subsection \<open>Failures of the providers\<close>

lemma wellformed_geocoding_first_match:
  "wellformed_geocoding v \<Longrightarrow> \<exists>m. first_match v = Inr m"
  by (cases v)
     (auto simp add: first_match_def then_do_def split: option.splits pyval.splits list.splits)

lemma absent_or_list_get:
  "absent_or_list d k \<Longrightarrow> \<exists>xs. py_get (PDict d) k (PList []) = Inr (PList xs)"
  by (auto simp add: absent_or_list_def split: option.splits pyval.splits)

lemma absent_or_list_empty: "absent_or_list [] k"
  by (simp add: absent_or_list_def)

lemma wellformed_forecast_hourly:
  assumes "wellformed_forecast v"
  shows "\<exists>hr. py_get v ''hourly'' (PDict []) = Inr (PDict hr) \<and> absent_or_list hr ''time'' \<and>
     absent_or_list hr ''temperature_2m'' \<and> absent_or_list hr ''precipitation_probability''"
proof (cases v)
  case (PDict d)
  show ?thesis
  proof (cases "map_of d ''hourly''")
    case None
    with PDict show ?thesis by (simp add: absent_or_list_empty)
  next
    case (Some hourly)
    with PDict assms show ?thesis by (cases hourly) simp_all
  qed
qed (use assms in simp_all)

lemma wellformed_forecast_window:
  assumes "wellformed_forecast v"
  shows "\<exists>d. window city lat lon (PInt k) v = Inr (PDict d)"
proof -
  from wellformed_forecast_hourly [OF assms] obtain hr
    where hr: "py_get v ''hourly'' (PDict []) = Inr (PDict hr)"
      and l: "absent_or_list hr ''time''" "absent_or_list hr ''temperature_2m''"
        "absent_or_list hr ''precipitation_probability''"
    by blast
  from absent_or_list_get [OF l(1)] obtain ts
    where ts: "py_get (PDict hr) ''time'' (PList []) = Inr (PList ts)" by blast
  from absent_or_list_get [OF l(2)] obtain te
    where te: "py_get (PDict hr) ''temperature_2m'' (PList []) = Inr (PList te)" by blast
  from absent_or_list_get [OF l(3)] obtain pr
    where pr: "py_get (PDict hr) ''precipitation_probability'' (PList []) = Inr (PList pr)" by blast
  from window_lists [OF hr ts te pr] show ?thesis by blast
qed

lemma first_match_paris:
  "first_match paris_match = Inr (Some (PFloat 48.85, PFloat 2.35))"
  by (simp add: paris_match_def first_match_def then_do_def)

text \<open>
  C1, as the code has it. For every city string and integer \<open>hours\<close>, when each request
  either raises a request exception or returns a well-formed document,
  \<^verbatim>\<open>fetch_weather_window\<close> returns a dictionary and raises nothing: a failed geocoding
  request, an answer without a match and a failed forecast request each become the
  \<^verbatim>\<open>error\<close> entry of the result.
\<close>

theorem fetch_weather_window_captures_request_failures:
  assumes geo: "case geocode P (PStr city) of
                  Raises exc \<Rightarrow> True | Returns v \<Rightarrow> wellformed_geocoding v"
    and fc: "\<And>lat lon. case forecast P lat lon of
                  Raises exc \<Rightarrow> True | Returns v \<Rightarrow> wellformed_forecast v"
  shows "(\<exists>d. snd (fetch_weather_window P (PStr city) (PInt h)) = Inr (PDict d)) \<and>
     (\<forall>exc. geocode P (PStr city) = Raises exc \<longrightarrow>
        snd (fetch_weather_window P (PStr city) (PInt h)) =
          Inr (PDict [(''city'', PStr city), (''error'', PStr (''Geocoding failed: '' @ exc))])) \<and>
     (\<forall>g. geocode P (PStr city) = Returns g \<and> first_match g = Inr None \<longrightarrow>
        snd (fetch_weather_window P (PStr city) (PInt h)) =
          Inr (PDict [(''city'', PStr city), (''error'', PStr ''No geocoding match'')])) \<and>
     (\<forall>g lat lon exc. geocode P (PStr city) = Returns g \<and> first_match g = Inr (Some (lat, lon))
          \<and> forecast P lat lon = Raises exc \<longrightarrow>
        snd (fetch_weather_window P (PStr city) (PInt h)) =
          Inr (PDict [(''city'', PStr city), (''error'', PStr (''Forecast fetch failed: '' @ exc))]))"
proof -
  have returns: "\<exists>d. snd (fetch_weather_window P (PStr city) (PInt h)) = Inr (PDict d)"
  proof (cases "geocode P (PStr city)")
    case (Raises exc)
    then show ?thesis by (simp add: fetch_weather_window_def clamp_hours_int)
  next
    case (Returns g)
    with geo have "wellformed_geocoding g" by simp
    then obtain m where m: "first_match g = Inr m"
      using wellformed_geocoding_first_match by blast
    show ?thesis
    proof (cases m)
      case None
      with Returns m show ?thesis by (simp add: fetch_weather_window_def clamp_hours_int)
    next
      case (Some c)
      obtain lat lon where c: "c = (lat, lon)" by (cases c)
      show ?thesis
      proof (cases "forecast P lat lon")
        case (Raises exc)
        with Returns m Some c show ?thesis
          by (simp add: fetch_weather_window_def clamp_hours_int)
      next
        case fr: (Returns data)
        with fc [of lat lon] have "wellformed_forecast data" by simp
        from wellformed_forecast_window [OF this]
        obtain d where "window (PStr city) lat lon (PInt (max 1 (min h 24))) data = Inr (PDict d)"
          by blast
        with Returns m Some c fr show ?thesis
          by (simp add: fetch_weather_window_def clamp_hours_int)
      qed
    qed
  qed
  show ?thesis
    using returns by (simp add: fetch_weather_window_def clamp_hours_int)
qed

text \<open>A forecast request that times out after a successful geocoding.\<close>

theorem fetch_weather_window_captures_request_failures_witness:
  "snd (fetch_weather_window (fixed_providers (Returns paris_match) (Raises ''read timed out''))
      (PStr ''Paris'') (PInt 12)) =
     Inr (PDict [(''city'', PStr ''Paris''),
                 (''error'', PStr ''Forecast fetch failed: read timed out'')])"
proof -
  have geo: "case geocode (fixed_providers (Returns paris_match) (Raises ''read timed out''))
                 (PStr ''Paris'') of
               Raises exc \<Rightarrow> True | Returns v \<Rightarrow> wellformed_geocoding v"
    by (simp add: fixed_providers_def paris_match_def)
  have fc: "case forecast (fixed_providers (Returns paris_match) (Raises ''read timed out''))
                 lat lon of
               Raises exc \<Rightarrow> True | Returns v \<Rightarrow> wellformed_forecast v" for lat lon
    by (simp add: fixed_providers_def)
  from fetch_weather_window_captures_request_failures [OF geo fc, of 12]
  have "\<forall>g lat lon exc.
       geocode (fixed_providers (Returns paris_match) (Raises ''read timed out'')) (PStr ''Paris'')
         = Returns g \<and> first_match g = Inr (Some (lat, lon))
       \<and> forecast (fixed_providers (Returns paris_match) (Raises ''read timed out'')) lat lon
         = Raises exc \<longrightarrow>
       snd (fetch_weather_window (fixed_providers (Returns paris_match) (Raises ''read timed out''))
             (PStr ''Paris'') (PInt 12)) =
         Inr (PDict [(''city'', PStr ''Paris''), (''error'', PStr (''Forecast fetch failed: '' @ exc))])"
    by blast
  from this [rule_format, of paris_match "PFloat 48.85" "PFloat 2.35" "''read timed out''"]
  show ?thesis by (simp add: fixed_providers_def first_match_paris)
qed

text \<open>
  A geocoding answer whose first match has no latitude is a behaviour of the provider
  on which the call raises \<^verbatim>\<open>KeyError\<close> instead of returning a result.
\<close>

theorem fetch_weather_window_raises_on_bare_match:
  "snd (fetch_weather_window
         (fixed_providers (Returns (PDict [(''results'', PList [PDict []])])) (Raises ''unused''))
         (PStr ''Paris'') (PInt 12)) = Inl KeyError"
  by (simp add: fetch_weather_window_def clamp_hours_int fixed_providers_def first_match_def
      then_do_def)

section \<open>The tool dispatcher: results\<close>

lemma step_dispatch:
  "control c = Dispatch (tc # rest) \<Longrightarrow> step W c = dispatch W tc rest c"
  by (simp add: step_def)



lemma handle_undecodable:
  assumes "loads J (fn_arguments (call_function tc)) = Inl JSONDecodeError"
    and "fn_name (call_function tc) = ''fetch_weather_window''"
  shows "handle_tool_call J P tc = ([], Inl TypeError)"
  using assms
  by (simp add: handle_tool_call_def Let_def parse_arguments_def call_fetch_weather_window_def)

lemma list_all_replicate: "list_all P (replicate n x) = (n = 0 \<or> P x)"
  by (induction n) auto

lemma sample_loads_examples:
  "sample_loads (replicate 5000 CHR ''1'') = Inl ValueError"
  "sample_loads ''{not json'' = Inl JSONDecodeError"
  "sample_loads ''{city: Paris'' = Inl JSONDecodeError"
  "sample_loads (''{'' @ quoted ''city'' @ '': '' @ quoted ''Paris'' @ ''}'') =
     Inr (PDict [(''city'', PStr ''Paris'')])"
  by (simp_all add: sample_loads_def list_all_replicate quoted_def)




text \<open>
  C2, where the code departs from it. When the arguments of a request for
  \<^verbatim>\<open>fetch_weather_window\<close> do not decode, \<^verbatim>\<open>parse_arguments\<close> gives the empty dictionary,
  the call \<^verbatim>\<open>fetch_weather_window(**{})\<close> lacks the required \<open>city\<close>, and the
  \<^verbatim>\<open>TypeError\<close> leaves \<^verbatim>\<open>handle_tool_call\<close> and ends the session without a tool entry.
\<close>

theorem handle_tool_call_raises_without_city:
  assumes "loads (json W) (fn_arguments (call_function tc)) = Inl JSONDecodeError"
    and "fn_name (call_function tc) = ''fetch_weather_window''"
  shows "parse_arguments (json W) (fn_arguments (call_function tc)) = Inr (PDict [])
     \<and> handle_tool_call (json W) P tc = ([], Inl TypeError)
     \<and> (control c = Dispatch (tc # rest) \<longrightarrow>
          control (step W c) = Raised TypeError \<and> messages (step W c) = messages c)"
  using assms
  by (simp add: step_dispatch dispatch_def handle_undecodable parse_arguments_def)

theorem handle_tool_call_raises_without_city_witness:
  "handle_tool_call sample_json (fixed_providers (Returns paris_match) (Returns short_temps_forecast))
      \<lparr>call_id = ''call_2'',
       call_function = \<lparr>fn_name = ''fetch_weather_window'', fn_arguments = ''{city: Paris''\<rparr>\<rparr> =
     ([], Inl TypeError)
   \<and> control (step demo_world
        \<lparr>control = Dispatch [\<lparr>call_id = ''call_2'',
             call_function = \<lparr>fn_name = ''fetch_weather_window'', fn_arguments = ''{city: Paris''\<rparr>\<rparr>],
         messages = [system_message, user_message ''Paris?''], stdin = [], stdout = [], clock = 1\<rparr>)
     = Raised TypeError"
proof -
  have js: "json demo_world = sample_json" by (simp add: demo_world_def)
  have undecodable: "loads (json demo_world) (fn_arguments (call_function
      \<lparr>call_id = ''call_2'',
       call_function = \<lparr>fn_name = ''fetch_weather_window'', fn_arguments = ''{city: Paris''\<rparr>\<rparr>))
      = Inl JSONDecodeError"
    by (simp add: js sample_json_def sample_loads_examples)
  from handle_tool_call_raises_without_city [OF undecodable, where
      P = "fixed_providers (Returns paris_match) (Returns short_temps_forecast)"
      and c = "\<lparr>control = Dispatch [\<lparr>call_id = ''call_2'',
             call_function = \<lparr>fn_name = ''fetch_weather_window'', fn_arguments = ''{city: Paris''\<rparr>\<rparr>],
         messages = [system_message, user_message ''Paris?''], stdin = [], stdout = [], clock = 1\<rparr>"
      and rest = "[]"]
  show ?thesis by (simp add: js)
qed

section \<open>The conversation loop: results\<close>

subsection \<open>Stripping\<close>

lemma dropWhile_unchanged: "xs = [] \<or> \<not> P (hd xs) \<Longrightarrow> dropWhile P xs = xs"
  by (cases xs) auto

lemma strip_strip: "strip (strip s) = strip s"
proof -
  define u where "u = dropWhile isspace s"
  define v where "v = dropWhile isspace (rev u)"
  have t: "strip s = rev v" by (simp add: strip_def u_def v_def)
  have "rev u = takeWhile isspace (rev u) @ v" by (simp add: v_def)
  then have "u = rev v @ rev (takeWhile isspace (rev u))"
    by (metis rev_append rev_rev_ident)
  then have hd_v: "rev v \<noteq> [] \<Longrightarrow> hd (rev v) = hd u \<and> u \<noteq> []"
    by (metis hd_append2 append_is_Nil_conv)
  have "rev v = [] \<or> \<not> isspace (hd (rev v))"
    using hd_v hd_dropWhile [of isspace s] by (auto simp add: u_def)
  then have lead: "dropWhile isspace (rev v) = rev v" by (rule dropWhile_unchanged)
  have trail: "dropWhile isspace v = v" by (simp add: v_def)
  show ?thesis by (simp add: t) (simp add: strip_def lead trail)
qed

lemma py_print_fields [simp]:
  "messages (py_print s c) = messages c"
  "control (py_print s c) = control c"
  "stdin (py_print s c) = stdin c"
  "clock (py_print s c) = clock c"
  by (simp_all add: py_print_def)

lemma step_read_input: "control c = ReadInput \<Longrightarrow> step W c = read_input c"
  by (simp add: step_def)

text \<open>
  C10. A line of input is stripped before anything else is done with it: the step taken
  on a line is the step taken on the stripped line; a line of whitespace only is dropped,
  the transcript stays as it is and the next step prompts again; a line that is
  \<^verbatim>\<open>/exit\<close>, \<^verbatim>\<open>/quit\<close> or \<^verbatim>\<open>/reset\<close> once stripped and lowered is that command; and any
  other line appends to the transcript the entry of role \<^verbatim>\<open>user\<close> whose content is the
  stripped text.
\<close>

theorem input_line_is_stripped:
  assumes "control c = ReadInput" and "stdin c = line # rest"
  shows "step W c = step W (c\<lparr>stdin := strip line # rest\<rparr>)
     \<and> (strip line = [] \<longrightarrow> step W c = c\<lparr>stdin := rest, stdout := stdout c @ [''You> '']\<rparr>)
     \<and> (lower (strip line) = ''/exit'' \<or> lower (strip line) = ''/quit'' \<longrightarrow>
          control (step W c) = Returned \<and> messages (step W c) = messages c)
     \<and> (lower (strip line) = ''/reset'' \<longrightarrow>
          control (step W c) = ReadInput \<and>
          messages (step W c) =
            [\<lparr>role = ''system'', content = PStr SYSTEM_MESSAGE,
              tool_calls = None, tool_call_id = None\<rparr>])
     \<and> (strip line \<noteq> [] \<and> lower (strip line) \<notin> {''/exit'', ''/quit'', ''/reset''} \<longrightarrow>
          control (step W c) = CallModel \<and>
          messages (step W c) =
            messages c @ [\<lparr>role = ''user'', content = PStr (strip line),
                           tool_calls = None, tool_call_id = None\<rparr>])"
proof -
  have same: "step W c = step W (c\<lparr>stdin := strip line # rest\<rparr>)"
    using assms by (simp add: step_read_input read_input_def Let_def strip_strip py_print_def)
  have blank: "step W c = c\<lparr>stdin := rest, stdout := stdout c @ [''You> '']\<rparr>"
    if "strip line = []"
    using assms that by (simp add: step_read_input read_input_def Let_def)
  have nonempty: "strip line \<noteq> []" if "lower (strip line) = x" "x \<noteq> []" for x
    using that by (auto simp add: lower_def)
  have quit: "control (step W c) = Returned \<and> messages (step W c) = messages c"
    if "lower (strip line) = ''/exit'' \<or> lower (strip line) = ''/quit''"
    using assms that nonempty [of "''/exit''"] nonempty [of "''/quit''"]
    by (auto simp add: step_read_input read_input_def Let_def)
  have reset: "control (step W c) = ReadInput \<and>
      messages (step W c) =
        [\<lparr>role = ''system'', content = PStr SYSTEM_MESSAGE,
          tool_calls = None, tool_call_id = None\<rparr>]"
    if "lower (strip line) = ''/reset''"
    using assms that nonempty [of "''/reset''"]
    by (simp add: step_read_input read_input_def Let_def system_message_def)
  have turn: "control (step W c) = CallModel \<and>
      messages (step W c) =
        messages c @ [\<lparr>role = ''user'', content = PStr (strip line),
                       tool_calls = None, tool_call_id = None\<rparr>]"
    if "strip line \<noteq> []" "lower (strip line) \<notin> {''/exit'', ''/quit'', ''/reset''}"
    using assms that by (simp add: step_read_input read_input_def Let_def user_message_def)
  from same blank quit reset turn show ?thesis by blast
qed

lemma start_demo:
  "start demo_world input_lines =
     \<lparr>control = ReadInput, messages = [system_message], stdin = input_lines,
      stdout = [''Tour Assistant chat ready. Type '' @ [CHR 0x27] @ ''/reset'' @ [CHR 0x27] @
                '' to clear or '' @ [CHR 0x27] @ ''/exit'' @ [CHR 0x27] @ '' to quit.'' @ [CHR 0x0A]],
      clock = 0\<rparr>"
  by (simp add: start_def demo_world_def Let_def py_print_def)

lemma strip_examples:
  "strip ''  /exit '' = ''/exit''"
  "strip '' /reset  '' = ''/reset''"
  "strip ''   '' = []"
  "strip ''  paris at noon  '' = ''paris at noon''"
  "strip ''  paris tomorrow?  '' = ''paris tomorrow?''"
  "strip ''Assistant returned no narrative.'' = ''Assistant returned no narrative.''"
  by (simp_all add: strip_def isspace_def)

lemma lower_examples:
  "lower ''/exit'' = ''/exit''"
  "lower ''/reset'' = ''/reset''"
  "lower ''paris at noon'' = ''paris at noon''"
  "lower ''paris tomorrow?'' = ''paris tomorrow?''"
  by (simp_all add: lower_def lower_char_def)

text \<open>
  The line \<^verbatim>\<open>/exit\<close> between spaces ends the session, a line of spaces leaves the
  transcript alone, a question between spaces enters the transcript stripped, and
  \<^verbatim>\<open>/reset\<close> between spaces leaves the system message only.
\<close>

theorem input_line_is_stripped_witness:
  "control (step demo_world (start demo_world [''  /exit ''])) = Returned
   \<and> messages (step demo_world (start demo_world [''   ''])) = messages (start demo_world [''   ''])
   \<and> messages (step demo_world (start demo_world [''  paris at noon  ''])) =
       [\<lparr>role = ''system'', content = PStr SYSTEM_MESSAGE, tool_calls = None, tool_call_id = None\<rparr>,
        \<lparr>role = ''user'', content = PStr ''paris at noon'', tool_calls = None, tool_call_id = None\<rparr>]
   \<and> messages (step demo_world
         \<lparr>control = ReadInput,
          messages =
            [\<lparr>role = ''system'', content = PStr SYSTEM_MESSAGE, tool_calls = None, tool_call_id = None\<rparr>,
             \<lparr>role = ''user'', content = PStr ''hello'', tool_calls = None, tool_call_id = None\<rparr>,
             \<lparr>role = ''assistant'', content = PStr ''Hi!'', tool_calls = None, tool_call_id = None\<rparr>],
          stdin = ['' /reset  ''], stdout = [], clock = 1\<rparr>) =
       [\<lparr>role = ''system'', content = PStr SYSTEM_MESSAGE, tool_calls = None, tool_call_id = None\<rparr>]"
proof -
  have ready: "control (start demo_world input_lines) = ReadInput" for input_lines
    by (simp add: start_demo)
  have lines: "stdin (start demo_world [l]) = l # []" for l
    by (simp add: start_demo)
  from input_line_is_stripped [where c = "start demo_world [''  /exit '']" and line = "''  /exit ''"
      and rest = "[]" and W = demo_world, OF ready lines, THEN conjunct2]
  have quit: "control (step demo_world (start demo_world [''  /exit ''])) = Returned"
    by (simp add: strip_examples lower_examples)
  from input_line_is_stripped [where c = "start demo_world [''   '']" and line = "''   ''"
      and rest = "[]" and W = demo_world, OF ready lines, THEN conjunct2]
  have blank: "messages (step demo_world (start demo_world [''   ''])) =
      messages (start demo_world [''   ''])"
    by (simp add: strip_examples start_demo)
  from input_line_is_stripped [where c = "start demo_world [''  paris at noon  '']"
      and line = "''  paris at noon  ''" and rest = "[]" and W = demo_world,
      OF ready lines, THEN conjunct2]
  have turn: "messages (step demo_world (start demo_world [''  paris at noon  ''])) =
       [\<lparr>role = ''system'', content = PStr SYSTEM_MESSAGE, tool_calls = None, tool_call_id = None\<rparr>,
        \<lparr>role = ''user'', content = PStr ''paris at noon'', tool_calls = None, tool_call_id = None\<rparr>]"
    by (simp add: strip_examples lower_examples start_demo system_message_def)
  from input_line_is_stripped [where
      c = "\<lparr>control = ReadInput,
          messages =
            [\<lparr>role = ''system'', content = PStr SYSTEM_MESSAGE, tool_calls = None, tool_call_id = None\<rparr>,
             \<lparr>role = ''user'', content = PStr ''hello'', tool_calls = None, tool_call_id = None\<rparr>,
             \<lparr>role = ''assistant'', content = PStr ''Hi!'', tool_calls = None, tool_call_id = None\<rparr>],
          stdin = ['' /reset  ''], stdout = [], clock = 1\<rparr>"
      and line = "'' /reset  ''" and rest = "[]" and W = demo_world, THEN conjunct2]
  have reset: "messages (step demo_world
         \<lparr>control = ReadInput,
          messages =
            [\<lparr>role = ''system'', content = PStr SYSTEM_MESSAGE, tool_calls = None, tool_call_id = None\<rparr>,
             \<lparr>role = ''user'', content = PStr ''hello'', tool_calls = None, tool_call_id = None\<rparr>,
             \<lparr>role = ''assistant'', content = PStr ''Hi!'', tool_calls = None, tool_call_id = None\<rparr>],
          stdin = ['' /reset  ''], stdout = [], clock = 1\<rparr>) =
       [\<lparr>role = ''system'', content = PStr SYSTEM_MESSAGE, tool_calls = None, tool_call_id = None\<rparr>]"
    by (simp add: strip_examples lower_examples)
  from quit blank turn reset show ?thesis by simp
qed

subsection \<open>A reply without narrative\<close>

lemma step_call_model: "control c = CallModel \<Longrightarrow> step W c = call_model W c"
  by (simp add: step_def)

text \<open>
  C8. When the reply has no requests and its extracted text is empty once stripped, the
  step prints the divider of sixty dashes, the notice \<^verbatim>\<open>Assistant returned no narrative.\<close>
  and the divider, and appends to the transcript the entry of role \<^verbatim>\<open>assistant\<close> whose
  content is the extracted text itself, not the notice.
\<close>

theorem empty_narrative_placeholder:
  assumes "control c = CallModel"
    and "chat W (clock c) (messages c) = Inr r"
    and "reply_tool_calls r = None \<or> reply_tool_calls r = Some []"
    and "extract_text (reply_content r) = Inr t"
    and "strip t = []"
  shows "stdout (step W c) =
       stdout c @ [replicate 60 CHR ''-'' @ [CHR 0x0A],
                   ''Assistant returned no narrative.'' @ [CHR 0x0A],
                   replicate 60 CHR ''-'' @ [CHR 0x0A]]
     \<and> messages (step W c) =
         messages c @ [\<lparr>role = ''assistant'', content = PStr t,
                        tool_calls = None, tool_call_id = None\<rparr>]
     \<and> content (last (messages (step W c))) \<noteq> PStr ''Assistant returned no narrative.''
     \<and> control (step W c) = ReadInput"
proof -
  have differs: "t \<noteq> ''Assistant returned no narrative.''"
    using assms(5) by (auto simp add: strip_examples)
  show ?thesis
    using assms differs
    by (auto simp add: step_call_model call_model_def Let_def print_response_def py_print_def
        strip_examples divider_def assistant_message_def)
qed

text \<open>A reply of two spaces: the notice is printed, the two spaces enter the transcript.\<close>

theorem empty_narrative_placeholder_witness:
  "stdout (step (demo_world\<lparr>chat := constant_chat \<lparr>reply_content = PStr ''  '', reply_tool_calls = None\<rparr>\<rparr>)
       \<lparr>control = CallModel,
        messages = [\<lparr>role = ''user'', content = PStr ''hello'', tool_calls = None, tool_call_id = None\<rparr>],
        stdin = [], stdout = [], clock = 0\<rparr>) =
     [replicate 60 CHR ''-'' @ [CHR 0x0A],
      ''Assistant returned no narrative.'' @ [CHR 0x0A],
      replicate 60 CHR ''-'' @ [CHR 0x0A]]
   \<and> messages (step (demo_world\<lparr>chat := constant_chat \<lparr>reply_content = PStr ''  '', reply_tool_calls = None\<rparr>\<rparr>)
       \<lparr>control = CallModel,
        messages = [\<lparr>role = ''user'', content = PStr ''hello'', tool_calls = None, tool_call_id = None\<rparr>],
        stdin = [], stdout = [], clock = 0\<rparr>) =
     [\<lparr>role = ''user'', content = PStr ''hello'', tool_calls = None, tool_call_id = None\<rparr>,
      \<lparr>role = ''assistant'', content = PStr ''  '', tool_calls = None, tool_call_id = None\<rparr>]"
proof -
  have blank: "strip ''  '' = []" by (simp add: strip_def isspace_def)
  from empty_narrative_placeholder [where
      c = "\<lparr>control = CallModel,
        messages = [\<lparr>role = ''user'', content = PStr ''hello'', tool_calls = None, tool_call_id = None\<rparr>],
        stdin = [], stdout = [], clock = 0\<rparr>"
      and W = "demo_world\<lparr>chat := constant_chat \<lparr>reply_content = PStr ''  '', reply_tool_calls = None\<rparr>\<rparr>"
      and r = "\<lparr>reply_content = PStr ''  '', reply_tool_calls = None\<rparr>" and t = "''  ''"]
  show ?thesis by (simp add: constant_chat_def blank)
qed

subsection \<open>The transcript\<close>

lemma answers_pending_append:
  "answers_pending p (ms @ ns) =
     (answers_pending p ms \<and> answers_pending (pending_after p ms) ns)"
  by (induction ms arbitrary: p) auto

lemma pending_after_append:
  "pending_after p (ms @ ns) = pending_after (pending_after p ms) ns"
  by (induction ms arbitrary: p) auto

lemma dispatch_ok_start: "dispatch_ok (start W input_lines)"
  by (simp add: dispatch_ok_def start_def Let_def system_message_def split: option.splits)

lemma dispatch_ok_read_input:
  assumes "dispatch_ok c" and "control c = ReadInput"
  shows "dispatch_ok (read_input c)"
  using assms
  by (simp add: dispatch_ok_def read_input_def Let_def answers_pending_append
      system_message_def user_message_def split: list.splits)

lemma request_ids_assistant_request:
  "request_ids (assistant_request x calls) = map call_id calls"
  by (simp add: request_ids_def assistant_request_def request_entry_def comp_def)

lemma dispatch_ok_call_model:
  assumes "dispatch_ok c" and "control c = CallModel"
  shows "dispatch_ok (call_model W c)"
proof (cases "chat W (clock c) (messages c)")
  case (Inl e)
  with assms show ?thesis by (simp add: dispatch_ok_def call_model_def)
next
  case (Inr message)
  show ?thesis
  proof (cases "\<exists>call calls. reply_tool_calls message = Some (call # calls)")
    case True
    then obtain call calls where "reply_tool_calls message = Some (call # calls)" by blast
    with Inr assms show ?thesis
      by (simp add: dispatch_ok_def call_model_def answers_pending_append pending_after_append
          request_ids_assistant_request)
         (auto simp add: assistant_request_def request_ids_def request_entry_def comp_def)
  next
    case False
    with Inr assms show ?thesis
      by (auto simp add: dispatch_ok_def call_model_def Let_def answers_pending_append
          print_response_def assistant_message_def split: option.splits list.splits sum.splits)
  qed
qed

lemma dispatch_ok_dispatch:
  assumes "dispatch_ok c" and "control c = Dispatch (tool_call # rest)"
  shows "dispatch_ok (dispatch W tool_call rest c)"
  using assms
  by (auto simp add: dispatch_ok_def dispatch_def answers_pending_append pending_after_append
      tool_message_def split: sum.splits)

lemma dispatch_ok_step: "dispatch_ok c \<Longrightarrow> dispatch_ok (step W c)"
proof (cases "control c")
  case (Dispatch todo)
  assume "dispatch_ok c"
  with Dispatch show ?thesis
    by (cases todo) (simp_all add: step_def dispatch_ok_dispatch, simp add: dispatch_ok_def)
qed (simp_all add: step_def dispatch_ok_read_input dispatch_ok_call_model)

lemma dispatch_ok_steps: "dispatch_ok ((step W ^^ n) (start W input_lines))"
  by (induction n) (simp_all add: dispatch_ok_start dispatch_ok_step)

lemma dispatch_all:
  assumes "control c = Dispatch calls"
    and "length results = length calls"
    and "\<forall>i < length calls.
           snd (handle_tool_call (json W) (tools W (clock c + i)) (calls ! i)) = Inr (results ! i)"
  shows "(step W ^^ length calls) c =
     c\<lparr>messages := messages c @
          map (\<lambda>(call, res). tool_message (call_id call) (dumps (json W) res)) (zip calls results),
       control := Dispatch [],
       clock := clock c + length calls\<rparr>"
  using assms
proof (induction calls arbitrary: c results)
  case Nil
  then show ?case by simp
next
  case (Cons call calls)
  from Cons.prems(2) obtain r rs where results: "results = r # rs" and len: "length rs = length calls"
    by (cases results) auto
  from Cons.prems(3) [rule_format, of 0] results
  have first: "snd (handle_tool_call (json W) (tools W (clock c)) call) = Inr r" by simp
  define c' where "c' = step W c"
  have c': "c' = c\<lparr>messages := messages c @ [tool_message (call_id call) (dumps (json W) r)],
                   control := Dispatch calls, clock := clock c + 1\<rparr>"
    by (simp add: c'_def step_def Cons.prems(1) dispatch_def first)
  have others: "\<forall>i < length calls.
      snd (handle_tool_call (json W) (tools W (clock c' + i)) (calls ! i)) = Inr (rs ! i)"
  proof (intro allI impI)
    fix i assume "i < length calls"
    then have "Suc i < length (call # calls)" by simp
    from Cons.prems(3) [rule_format, OF this] results show
      "snd (handle_tool_call (json W) (tools W (clock c' + i)) (calls ! i)) = Inr (rs ! i)"
      by (simp add: c')
  qed
  have ctl: "control c' = Dispatch calls" by (simp add: c')
  have "(step W ^^ length (call # calls)) c = (step W ^^ length calls) c'"
    by (simp add: c'_def funpow_swap1)
  also note Cons.IH [OF ctl len others]
  finally show ?case by (simp add: c' results)
qed

lemma tool_turn_transcript:
  assumes ctl: "control c = ReadInput"
    and inp: "stdin c = line # rest"
    and nonempty: "strip line \<noteq> []"
    and nocmd: "lower (strip line) \<notin> {''/exit'', ''/quit'', ''/reset''}"
    and first: "chat W (clock c) (messages c @ [user_message (strip line)]) = Inr r1"
    and calls: "reply_tool_calls r1 = Some calls" "calls \<noteq> []"
    and len: "length results = length calls"
    and res: "\<forall>i < length calls.
           snd (handle_tool_call (json W) (tools W (clock c + 1 + i)) (calls ! i)) = Inr (results ! i)"
    and second: "chat W (clock c + 1 + length calls)
          (messages c @ [user_message (strip line), assistant_request (reply_content r1) calls] @
           map (\<lambda>(call, res). tool_message (call_id call) (dumps (json W) res)) (zip calls results))
          = Inr r2"
    and plain: "reply_tool_calls r2 = None \<or> reply_tool_calls r2 = Some []"
    and narrative: "extract_text (reply_content r2) = Inr t"
  shows "messages ((step W ^^ (length calls + 4)) c) =
       messages c @ [user_message (strip line), assistant_request (reply_content r1) calls] @
       map (\<lambda>(call, res). tool_message (call_id call) (dumps (json W) res)) (zip calls results) @
       [assistant_message t]"
proof -
  define c1 where "c1 = step W c"
  have c1: "control c1 = CallModel" "messages c1 = messages c @ [user_message (strip line)]"
    "clock c1 = clock c"
    using ctl inp nonempty nocmd by (simp_all add: c1_def step_def read_input_def Let_def)
  define c2 where "c2 = step W c1"
  from calls obtain call others where cm: "calls = call # others" by (cases calls) auto
  have c2: "control c2 = Dispatch calls"
    "messages c2 = messages c @ [user_message (strip line), assistant_request (reply_content r1) calls]"
    "clock c2 = clock c + 1"
    using c1 first calls(1) cm by (simp_all add: c2_def step_def call_model_def)
  define c3 where "c3 = (step W ^^ length calls) c2"
  have "\<forall>i < length calls.
           snd (handle_tool_call (json W) (tools W (clock c2 + i)) (calls ! i)) = Inr (results ! i)"
    using res by (simp add: c2)
  from dispatch_all [OF c2(1) len this]
  have c3: "control c3 = Dispatch []"
    "messages c3 = messages c @ [user_message (strip line), assistant_request (reply_content r1) calls] @
       map (\<lambda>(call, res). tool_message (call_id call) (dumps (json W) res)) (zip calls results)"
    "clock c3 = clock c + 1 + length calls"
    by (simp_all add: c3_def c2)
  define c4 where "c4 = step W c3"
  have c4: "control c4 = CallModel" "messages c4 = messages c3" "clock c4 = clock c3"
    by (simp_all add: c4_def step_def c3(1))
  define c5 where "c5 = step W c4"
  have c5: "messages c5 = messages c4 @ [assistant_message t]"
    using plain c4 c3 second narrative
    by (auto simp add: c5_def step_def call_model_def Let_def print_response_def)
  have "(step W ^^ (length calls + 4)) c = (step W ^^ 2) ((step W ^^ length calls) ((step W ^^ 2) c))"
    by (simp add: funpow_add numeral_2_eq_2 funpow_swap1 eval_nat_numeral)
  also have "\<dots> = c5"
    by (simp add: c5_def c4_def c3_def c2_def c1_def numeral_2_eq_2)
  finally show ?thesis by (simp add: c5 c4 c3)
qed

text \<open>
  C7. After any number of steps of a session, every tool entry of the transcript carries
  the id of a request of the assistant entry that directly precedes its run of tool
  entries. A request that is answered appends the entry of role \<^verbatim>\<open>tool\<close> whose
  \<^verbatim>\<open>tool_call_id\<close> is the id of the request and whose content is the answer serialised.
  And a user turn in which the endpoint first replies with requests, all of them
  answered, and then with plain text appends to the transcript, in this order, the user
  entry \<open>u\<close>, the assistant entry \<open>a\<close> holding the content of the reply and the id, name
  and arguments of each request as they came, the tool entries \<open>answered\<close>, one for each
  request in the order of the requests, and the assistant entry with the narrative.
\<close>

theorem transcript_answers_requests:
  "answers_pending [] (messages ((step W ^^ n) (start W input_lines)))
   \<and> (control d = Dispatch (tc # todo) \<and>
      snd (handle_tool_call (json W) (tools W (clock d)) tc) = Inr res
      \<longrightarrow>
      messages (step W d) =
        messages d @ [\<lparr>role = ''tool'', content = PStr (dumps (json W) res),
                       tool_calls = None, tool_call_id = Some (call_id tc)\<rparr>])
   \<and> (control c = ReadInput \<and> stdin c = line # rest \<and> strip line \<noteq> [] \<and>
      lower (strip line) \<notin> {''/exit'', ''/quit'', ''/reset''} \<and>
      u = \<lparr>role = ''user'', content = PStr (strip line),
           tool_calls = None, tool_call_id = None\<rparr> \<and>
      chat W (clock c) (messages c @ [u]) = Inr r1 \<and>
      reply_tool_calls r1 = Some calls \<and> calls \<noteq> [] \<and>
      a = \<lparr>role = ''assistant'', content = reply_content r1,
           tool_calls = Some (map (\<lambda>call.
               \<lparr>entry_id = call_id call, entry_type = ''function'',
                entry_function = \<lparr>fn_name = fn_name (call_function call),
                                   fn_arguments = fn_arguments (call_function call)\<rparr>\<rparr>) calls),
           tool_call_id = None\<rparr> \<and>
      length results = length calls \<and>
      (\<forall>i < length calls.
         snd (handle_tool_call (json W) (tools W (clock c + 1 + i)) (calls ! i)) = Inr (results ! i)) \<and>
      answered = map (\<lambda>(call, res).
          \<lparr>role = ''tool'', content = PStr (dumps (json W) res),
           tool_calls = None, tool_call_id = Some (call_id call)\<rparr>) (zip calls results) \<and>
      chat W (clock c + 1 + length calls) (messages c @ [u, a] @ answered) = Inr r2 \<and>
      (reply_tool_calls r2 = None \<or> reply_tool_calls r2 = Some []) \<and>
      extract_text (reply_content r2) = Inr t
      \<longrightarrow>
      messages ((step W ^^ (length calls + 4)) c) =
        messages c @ [u, a] @ answered @
        [\<lparr>role = ''assistant'', content = PStr t, tool_calls = None, tool_call_id = None\<rparr>])"
proof (intro conjI impI)
  show "answers_pending [] (messages ((step W ^^ n) (start W input_lines)))"
    using dispatch_ok_steps [where W = W and n = n and input_lines = input_lines]
    by (simp add: dispatch_ok_def)
next
  assume "control d = Dispatch (tc # todo) \<and>
      snd (handle_tool_call (json W) (tools W (clock d)) tc) = Inr res"
  then show "messages (step W d) =
        messages d @ [\<lparr>role = ''tool'', content = PStr (dumps (json W) res),
                       tool_calls = None, tool_call_id = Some (call_id tc)\<rparr>]"
    by (simp add: step_dispatch dispatch_def tool_message_def)
next
  assume turn: "control c = ReadInput \<and> stdin c = line # rest \<and> strip line \<noteq> [] \<and>
      lower (strip line) \<notin> {''/exit'', ''/quit'', ''/reset''} \<and>
      u = \<lparr>role = ''user'', content = PStr (strip line),
           tool_calls = None, tool_call_id = None\<rparr> \<and>
      chat W (clock c) (messages c @ [u]) = Inr r1 \<and>
      reply_tool_calls r1 = Some calls \<and> calls \<noteq> [] \<and>
      a = \<lparr>role = ''assistant'', content = reply_content r1,
           tool_calls = Some (map (\<lambda>call.
               \<lparr>entry_id = call_id call, entry_type = ''function'',
                entry_function = \<lparr>fn_name = fn_name (call_function call),
                                   fn_arguments = fn_arguments (call_function call)\<rparr>\<rparr>) calls),
           tool_call_id = None\<rparr> \<and>
      length results = length calls \<and>
      (\<forall>i < length calls.
         snd (handle_tool_call (json W) (tools W (clock c + 1 + i)) (calls ! i)) = Inr (results ! i)) \<and>
      answered = map (\<lambda>(call, res).
          \<lparr>role = ''tool'', content = PStr (dumps (json W) res),
           tool_calls = None, tool_call_id = Some (call_id call)\<rparr>) (zip calls results) \<and>
      chat W (clock c + 1 + length calls) (messages c @ [u, a] @ answered) = Inr r2 \<and>
      (reply_tool_calls r2 = None \<or> reply_tool_calls r2 = Some []) \<and>
      extract_text (reply_content r2) = Inr t"
  have u: "u = user_message (strip line)"
    using turn by (simp add: user_message_def)
  have a: "a = assistant_request (reply_content r1) calls"
    using turn by (simp add: assistant_request_def request_entry_def)
  have tool_entry: "(\<lambda>(call, res).
          \<lparr>role = ''tool'', content = PStr (dumps (json W) res),
           tool_calls = None, tool_call_id = Some (call_id call)\<rparr>) =
      (\<lambda>(call, res). tool_message (call_id call) (dumps (json W) res))"
    by (simp add: tool_message_def)
  have answered: "answered =
      map (\<lambda>(call, res). tool_message (call_id call) (dumps (json W) res)) (zip calls results)"
    using turn by (simp only: tool_entry)
  have final: "\<lparr>role = ''assistant'', content = PStr t, tool_calls = None, tool_call_id = None\<rparr> =
      assistant_message t"
    by (simp add: assistant_message_def)
  from turn have "chat W (clock c) (messages c @ [u]) = Inr r1" by blast
  then have first: "chat W (clock c) (messages c @ [user_message (strip line)]) = Inr r1"
    unfolding u .
  from turn have "chat W (clock c + 1 + length calls) (messages c @ [u, a] @ answered) = Inr r2"
    by blast
  then have second: "chat W (clock c + 1 + length calls)
      (messages c @ [user_message (strip line), assistant_request (reply_content r1) calls] @
       map (\<lambda>(call, res). tool_message (call_id call) (dumps (json W) res)) (zip calls results))
      = Inr r2"
    unfolding u a answered .
  from turn have
    "control c = ReadInput" "stdin c = line # rest" "strip line \<noteq> []"
    "lower (strip line) \<notin> {''/exit'', ''/quit'', ''/reset''}"
    "reply_tool_calls r1 = Some calls" "calls \<noteq> []" "length results = length calls"
    "\<forall>i < length calls.
       snd (handle_tool_call (json W) (tools W (clock c + 1 + i)) (calls ! i)) = Inr (results ! i)"
    "reply_tool_calls r2 = None \<or> reply_tool_calls r2 = Some []"
    "extract_text (reply_content r2) = Inr t"
    by blast+
  from tool_turn_transcript [OF this(1-4) first this(5-8) second this(9,10)]
  show "messages ((step W ^^ (length calls + 4)) c) =
        messages c @ [u, a] @ answered @
        [\<lparr>role = ''assistant'', content = PStr t, tool_calls = None, tool_call_id = None\<rparr>]"
    by (simp only: u a answered final)
qed

text \<open>
  A session with one question: the endpoint asks for the weather of Paris, the
  geocoding request times out, and the endpoint then answers in plain text.
\<close>

theorem transcript_answers_requests_witness:
  "messages ((step demo_world ^^ 5) (start demo_world [''  paris tomorrow?  ''])) =
     [\<lparr>role = ''system'', content = PStr SYSTEM_MESSAGE, tool_calls = None, tool_call_id = None\<rparr>,
      \<lparr>role = ''user'', content = PStr ''paris tomorrow?'', tool_calls = None, tool_call_id = None\<rparr>,
      \<lparr>role = ''assistant'', content = PNone,
       tool_calls = Some [\<lparr>entry_id = ''call_1'', entry_type = ''function'',
                           entry_function =
                             \<lparr>fn_name = ''fetch_weather_window'',
                              fn_arguments = ''{'' @ quoted ''city'' @ '': '' @ quoted ''Paris'' @ ''}''\<rparr>\<rparr>],
       tool_call_id = None\<rparr>,
      \<lparr>role = ''tool'',
       content = PStr (''{'' @ quoted ''city'' @ '': '' @ quoted ''Paris'' @ '', '' @
                       quoted ''error'' @ '': '' @ quoted ''Geocoding failed: timed out'' @ ''}''),
       tool_calls = None, tool_call_id = Some ''call_1''\<rparr>,
      \<lparr>role = ''assistant'', content = PStr ''Pack an umbrella.'',
       tool_calls = None, tool_call_id = None\<rparr>]
   \<and> answers_pending [] (messages ((step demo_world ^^ 5) (start demo_world [''  paris tomorrow?  ''])))"
proof -
  let ?c = "start demo_world [''  paris tomorrow?  '']"
  let ?res = "PDict [(''city'', PStr ''Paris''), (''error'', PStr ''Geocoding failed: timed out'')]"
  let ?u = "\<lparr>role = ''user'', content = PStr ''paris tomorrow?'',
             tool_calls = None, tool_call_id = None\<rparr>"
  have js: "json demo_world = sample_json" by (simp add: demo_world_def)
  have decoded: "loads sample_json (fn_arguments (call_function weather_call)) =
      Inr (PDict [(''city'', PStr ''Paris'')])"
    by (simp add: sample_json_def weather_call_def sample_loads_def quoted_def)
  have named: "fn_name (call_function weather_call) = ''fetch_weather_window''"
    by (simp add: weather_call_def)
  have handled: "snd (handle_tool_call (json demo_world) (tools demo_world k) weather_call) = Inr ?res"
    for k
    by (simp add: js decoded named handle_tool_call_def Let_def parse_arguments_def
        call_fetch_weather_window_def fetch_weather_window_def clamp_hours_int
        fixed_providers_def demo_world_def)
  have dumped: "dumps (json demo_world) ?res =
      ''{'' @ quoted ''city'' @ '': '' @ quoted ''Paris'' @ '', '' @
      quoted ''error'' @ '': '' @ quoted ''Geocoding failed: timed out'' @ ''}''"
    by (simp add: js sample_json_def sample_dumps_def)
  have chat1: "chat demo_world k [m0, m1] =
      Inr \<lparr>reply_content = PNone, reply_tool_calls = Some [weather_call]\<rparr>" for k m0 m1
    by (simp add: demo_world_def demo_chat_def)
  have chat2: "chat demo_world k [m0, m1, m2, m3] =
      Inr \<lparr>reply_content = PStr ''Pack an umbrella.'', reply_tool_calls = None\<rparr>" for k m0 m1 m2 m3
    by (simp add: demo_world_def demo_chat_def)
  note session = transcript_answers_requests [where W = demo_world and n = 5
      and input_lines = "[''  paris tomorrow?  '']" and c = ?c
      and line = "''  paris tomorrow?  ''" and rest = "[]" and u = ?u
      and ?r1.0 = "\<lparr>reply_content = PNone, reply_tool_calls = Some [weather_call]\<rparr>"
      and calls = "[weather_call]" and results = "[?res]"
      and a = "\<lparr>role = ''assistant'', content = PNone,
           tool_calls = Some (map (\<lambda>call.
               \<lparr>entry_id = call_id call, entry_type = ''function'',
                entry_function = \<lparr>fn_name = fn_name (call_function call),
                                   fn_arguments = fn_arguments (call_function call)\<rparr>\<rparr>)
             [weather_call]),
           tool_call_id = None\<rparr>"
      and answered = "map (\<lambda>(call, res).
          \<lparr>role = ''tool'', content = PStr (dumps (json demo_world) res),
           tool_calls = None, tool_call_id = Some (call_id call)\<rparr>) (zip [weather_call] [?res])"
      and ?r2.0 = "\<lparr>reply_content = PStr ''Pack an umbrella.'', reply_tool_calls = None\<rparr>"
      and t = "''Pack an umbrella.''"]
  from session have correlated:
    "answers_pending [] (messages ((step demo_world ^^ 5) ?c))"
    by (rule conjunct1)
  from session [THEN conjunct2, THEN conjunct2]
  have turn: "messages ((step demo_world ^^ 5) ?c) =
     [\<lparr>role = ''system'', content = PStr SYSTEM_MESSAGE, tool_calls = None, tool_call_id = None\<rparr>,
      \<lparr>role = ''user'', content = PStr ''paris tomorrow?'', tool_calls = None, tool_call_id = None\<rparr>,
      \<lparr>role = ''assistant'', content = PNone,
       tool_calls = Some [\<lparr>entry_id = ''call_1'', entry_type = ''function'',
                           entry_function =
                             \<lparr>fn_name = ''fetch_weather_window'',
                              fn_arguments = ''{'' @ quoted ''city'' @ '': '' @ quoted ''Paris'' @ ''}''\<rparr>\<rparr>],
       tool_call_id = None\<rparr>,
      \<lparr>role = ''tool'',
       content = PStr (''{'' @ quoted ''city'' @ '': '' @ quoted ''Paris'' @ '', '' @
                       quoted ''error'' @ '': '' @ quoted ''Geocoding failed: timed out'' @ ''}''),
       tool_calls = None, tool_call_id = Some ''call_1''\<rparr>,
      \<lparr>role = ''assistant'', content = PStr ''Pack an umbrella.'',
       tool_calls = None, tool_call_id = None\<rparr>]"
    by (simp add: start_demo strip_examples lower_examples chat1 chat2 handled dumped
        system_message_def)
       (simp add: weather_call_def)
  from turn correlated show ?thesis by (rule conjI)
qed

end
